theory Spec2Isabelle
  imports Main "HOL-Library.AList"
begin

section \<open>Values, dictionaries and the outside world\<close>

text \<open>
  The server (\<^verbatim>\<open>travel_server.py\<close>) is a catalogue of tools. Each tool checks its
  arguments, builds a dictionary of provider parameters, performs one outbound call and
  reshapes the answer into a dictionary (or the JSON text of one). The model keeps this
  structure: Python values are a JSON-like datatype, dictionaries are association lists
  in insertion order (\<open>d[k] = v\<close> is \<^const>\<open>AList.update\<close>), every \<^verbatim>\<open>raise\<close> is a value, and
  the outbound calls a tool performs are returned next to its reply.

  Floats are never computed on by the server except through library primitives, so they
  are a type parameter \<open>'f\<close>; the primitives are fields of the world.
\<close>

datatype 'f json =
    JNull
  | JBool bool
  | JInt int
  | JFloat 'f
  | JStr string
  | JList "'f json list"
  | JObj "(string \<times> 'f json) list"

type_synonym 'f dict = "(string \<times> 'f json) list"

text \<open>Exceptions: the class decides which \<^verbatim>\<open>except\<close> clause catches, the text is \<open>str(e)\<close>.\<close>

datatype exn_class =
    RequestException
  | ValueError
  | AttributeError
  | TypeError
  | IndexError
  | KeyError
  | ResponseError
  | GeocoderTimedOut
  | GeocoderUnavailable
  | OtherException

datatype exn = Exn exn_class string

text \<open>What the geocoder returns: nothing, one \<open>Location\<close>, or a list of them.\<close>

datatype 'f location = Location (loc_latitude: 'f) (loc_longitude: 'f) (loc_address: string) (loc_raw: "'f json")

datatype 'f geo_result = GeoNone | GeoOne "'f location" | GeoMany "'f location list"

text \<open>
  Faults that Python raises by itself while a tool processes a payload of an unexpected
  type. Their class is fixed by the language; their text is left to the world
  (\<open>fault_text\<close>), since it differs between interpreter versions.
\<close>

datatype 'f fault =
    NoAttribute string "'f json"
  | NotSubscriptable "'f json"
  | NoItemAssignment "'f json"
  | NoLen "'f json"
  | NotIterable "'f json"
  | MissingKey "'f json" nat
  | WrongGeoResult "'f geo_result"

datatype amadeus_endpoint =
    FlightOffersSearch
  | HotelsByCity
  | HotelsByGeocode
  | HotelOffers
  | Activities
  | Activity string

text \<open>
  An outbound call. \<open>HttpGet url params timeout\<close> is \<^verbatim>\<open>requests.get(url, params=params, timeout=timeout)\<close>,
  with \<open>None\<close> when the keyword is not passed; \<open>AmadeusGet e kwargs\<close> is the SDK method
  \<open>get(**kwargs)\<close> of endpoint \<open>e\<close>; \<open>GeocodeCall location kwargs\<close> is the rate-limited
  geocoder.
\<close>

datatype 'f request =
    HttpGet string "'f dict" "int option"
  | AmadeusGet amadeus_endpoint "'f dict"
  | GeocodeCall string "'f dict"

datatype 'f distance = Distance (kilometers: 'f) (miles: 'f) (nautical: 'f)

record 'f world =
  env_SERPAPI_KEY :: "string option"
  env_EXCHANGE_RATE_API_KEY :: "string option"
  requests_get :: "'f request \<Rightarrow> exn + 'f json"
  amadeus_get :: "'f request \<Rightarrow> exn + 'f json"
  geocoder :: "'f request \<Rightarrow> exn + 'f geo_result"
  geodesic :: "'f \<times> 'f \<Rightarrow> 'f \<times> 'f \<Rightarrow> exn + 'f distance"
  now_isoformat :: string
  fault_text :: "'f fault \<Rightarrow> string"
  float_truthy :: "'f \<Rightarrow> bool"
  float_conv :: "'f json \<Rightarrow> exn + 'f"
  float_mul :: "'f \<Rightarrow> 'f \<Rightarrow> 'f"
  round2 :: "'f \<Rightarrow> 'f"
  str_lower :: "string \<Rightarrow> string"
  str_upper :: "string \<Rightarrow> string"

text \<open>
  A tool returns a dictionary, or (the Amadeus tools) the text \<open>json.dumps(v)\<close>, written
  \<open>JsonText v\<close>. \<open>calls\<close> lists the outbound calls the invocation made, in order; a
  call that raises is listed too, an invocation that returns before reaching its provider
  has none. For the Amadeus SDK the request is listed from the point where the tool
  addresses the endpoint (\<open>amadeus_client.shopping\<dots>get(**params)\<close>): an
  \<open>AttributeError\<close> raised by the lookup of the endpoint itself, before \<open>get\<close> runs, is
  modelled as the call raising, so there \<open>calls\<close> lists a request that was prepared
  but not sent.
\<close>

datatype 'f reply = Mapping "'f dict" | JsonText "'f json"

record 'f outcome =
  calls :: "'f request list"
  reply :: "'f reply"

subsection \<open>Python idioms\<close>

definition dict_get :: "'f dict \<Rightarrow> string \<Rightarrow> 'f json \<Rightarrow> 'f json" where
  "dict_get d k dflt = (case map_of d k of None \<Rightarrow> dflt | Some v \<Rightarrow> v)"

definition keys :: "'f dict \<Rightarrow> string list" where
  "keys d = map fst d"

text \<open>\<open>if x:\<close> on an optional string, an optional int, and \<open>if x is not None:\<close>.\<close>

definition put_str_if_truthy :: "string \<Rightarrow> string option \<Rightarrow> 'f dict \<Rightarrow> 'f dict" where
  "put_str_if_truthy k v params =
     (case v of None \<Rightarrow> params
      | Some s \<Rightarrow> if s \<noteq> [] then AList.update k (JStr s) params else params)"

definition put_int_if_truthy :: "string \<Rightarrow> int option \<Rightarrow> 'f dict \<Rightarrow> 'f dict" where
  "put_int_if_truthy k v params =
     (case v of None \<Rightarrow> params
      | Some n \<Rightarrow> if n \<noteq> 0 then AList.update k (JInt n) params else params)"

definition put_int_if_not_none :: "string \<Rightarrow> int option \<Rightarrow> 'f dict \<Rightarrow> 'f dict" where
  "put_int_if_not_none k v params =
     (case v of None \<Rightarrow> params | Some n \<Rightarrow> AList.update k (JInt n) params)"

definition put_bool_if_not_none :: "string \<Rightarrow> bool option \<Rightarrow> 'f dict \<Rightarrow> 'f dict" where
  "put_bool_if_not_none k v params =
     (case v of None \<Rightarrow> params | Some b \<Rightarrow> AList.update k (JBool b) params)"

definition truthy_int :: "int option \<Rightarrow> bool" where
  "truthy_int v = (case v of None \<Rightarrow> False | Some n \<Rightarrow> n \<noteq> 0)"

definition truthy_str :: "string option \<Rightarrow> bool" where
  "truthy_str v = (case v of None \<Rightarrow> False | Some s \<Rightarrow> s \<noteq> [])"

definition error_dict :: "string \<Rightarrow> 'f dict" where
  "error_dict msg = [(''error'', JStr msg)]"

text \<open>Truthiness of a Python value (\<open>if v\<close>, \<open>v or w\<close>, \<open>not v\<close>).\<close>

definition truthy :: "'f world \<Rightarrow> 'f json \<Rightarrow> bool" where
  "truthy w v =
     (case v of
        JNull \<Rightarrow> False
      | JBool b \<Rightarrow> b
      | JInt n \<Rightarrow> n \<noteq> 0
      | JFloat x \<Rightarrow> float_truthy w x
      | JStr s \<Rightarrow> s \<noteq> []
      | JList xs \<Rightarrow> xs \<noteq> []
      | JObj d \<Rightarrow> d \<noteq> [])"

definition opt_str :: "string option \<Rightarrow> 'f json" where
  "opt_str v = (case v of None \<Rightarrow> JNull | Some s \<Rightarrow> JStr s)"

text \<open>Sequencing of steps that may raise.\<close>

definition try_bind :: "exn + 'a \<Rightarrow> ('a \<Rightarrow> exn + 'b) \<Rightarrow> exn + 'b" where
  "try_bind m f = (case m of Inl e \<Rightarrow> Inl e | Inr x \<Rightarrow> f x)"

text \<open>\<open>data.get(k, dflt)\<close> on a payload: only a dictionary has the method.\<close>

definition payload_get :: "'f world \<Rightarrow> 'f json \<Rightarrow> string \<Rightarrow> 'f json \<Rightarrow> exn + 'f json" where
  "payload_get w data k dflt =
     (case data of
        JObj d \<Rightarrow> Inr (dict_get d k dflt)
      | _ \<Rightarrow> Inl (Exn AttributeError (fault_text w (NoAttribute ''get'' data))))"

text \<open>
  \<open>xs[:m]\<close>. A negative \<open>m\<close> counts from the end. Lists and strings can be sliced; for
  any other value Python raises (\<open>TypeError\<close>; for a dictionary \<open>KeyError\<close> in recent
  versions: no tool distinguishes the two).
\<close>

definition slice_to :: "'a list \<Rightarrow> int \<Rightarrow> 'a list" where
  "slice_to xs m = (if 0 \<le> m then take (nat m) xs else take (nat (int (length xs) + m)) xs)"

definition py_slice_to :: "'f world \<Rightarrow> 'f json \<Rightarrow> int \<Rightarrow> exn + 'f json" where
  "py_slice_to w v m =
     (case v of
        JList xs \<Rightarrow> Inr (JList (slice_to xs m))
      | JStr s \<Rightarrow> Inr (JStr (slice_to s m))
      | _ \<Rightarrow> Inl (Exn TypeError (fault_text w (NotSubscriptable v))))"

text \<open>\<open>xs[i]\<close> on a list literal: negative indices count from the end, out of range raises.\<close>

definition py_index :: "'a list \<Rightarrow> int \<Rightarrow> exn + 'a" where
  "py_index xs i =
     (let n = int (length xs); j = (if i < 0 then n + i else i)
      in if 0 \<le> j \<and> j < n then Inr (xs ! nat j)
         else Inl (Exn IndexError ''list index out of range''))"

text \<open>\<open>str(n)\<close> for an int, \<open>sep.join(xs)\<close>, \<open>s.split(c)\<close>.\<close>

fun str_nat :: "nat \<Rightarrow> string" where
  "str_nat n = (if n < 10 then [char_of (48 + n)] else str_nat (n div 10) @ [char_of (48 + n mod 10)])"

declare str_nat.simps [simp del]

definition str_int :: "int \<Rightarrow> string" where
  "str_int i = (if i < 0 then CHR ''-'' # str_nat (nat (- i)) else str_nat (nat i))"

fun join :: "string \<Rightarrow> string list \<Rightarrow> string" where
  "join sep [] = []"
| "join sep [x] = x"
| "join sep (x # y # ys) = x @ sep @ join sep (y # ys)"

fun split_on :: "char \<Rightarrow> string \<Rightarrow> string list" where
  "split_on c [] = [[]]"
| "split_on c (x # xs) =
     (if x = c then [] # split_on c xs
      else (case split_on c xs of [] \<Rightarrow> [[x]] | h # t \<Rightarrow> (x # h) # t))"

text \<open>\<open>if xs: params[k] = ",".join(map(str, xs))\<close> and \<open>if flag: params[k] = "true"\<close>.\<close>

definition put_csv_if_truthy :: "string \<Rightarrow> int list option \<Rightarrow> 'f dict \<Rightarrow> 'f dict" where
  "put_csv_if_truthy k v params =
     (case v of None \<Rightarrow> params
      | Some xs \<Rightarrow> if xs \<noteq> [] then AList.update k (JStr (join '','' (map str_int xs))) params else params)"

definition put_true_if :: "string \<Rightarrow> bool \<Rightarrow> 'f dict \<Rightarrow> 'f dict" where
  "put_true_if k flag params = (if flag then AList.update k (JStr ''true'') params else params)"

text \<open>
  \<open>len(v)\<close>, iteration over \<open>v\<close> and \<open>v[i]\<close> for a payload value. Lists, strings and
  dictionaries have a length and can be iterated (a dictionary yields its keys); the
  keys of a decoded JSON object are strings, so an integer subscript of a dictionary is
  always a missing key.
\<close>

definition py_len :: "'f world \<Rightarrow> 'f json \<Rightarrow> exn + nat" where
  "py_len w v =
     (case v of
        JList xs \<Rightarrow> Inr (length xs)
      | JStr s \<Rightarrow> Inr (length s)
      | JObj d \<Rightarrow> Inr (length d)
      | _ \<Rightarrow> Inl (Exn TypeError (fault_text w (NoLen v))))"

definition py_iter :: "'f world \<Rightarrow> 'f json \<Rightarrow> exn + 'f json list" where
  "py_iter w v =
     (case v of
        JList xs \<Rightarrow> Inr xs
      | JStr s \<Rightarrow> Inr (map (\<lambda>c. JStr [c]) s)
      | JObj d \<Rightarrow> Inr (map (\<lambda>kv. JStr (fst kv)) d)
      | _ \<Rightarrow> Inl (Exn TypeError (fault_text w (NotIterable v))))"

definition py_getitem :: "'f world \<Rightarrow> 'f json \<Rightarrow> nat \<Rightarrow> exn + 'f json" where
  "py_getitem w v i =
     (case v of
        JList xs \<Rightarrow> py_index xs (int i)
      | JStr s \<Rightarrow> (if i < length s then Inr (JStr [s ! i])
                   else Inl (Exn IndexError ''string index out of range''))
      | JObj d \<Rightarrow> Inl (Exn KeyError (fault_text w (MissingKey v i)))
      | _ \<Rightarrow> Inl (Exn TypeError (fault_text w (NotSubscriptable v))))"

text \<open>\<open>float(v)\<close>: the identity on a float, the world's conversion otherwise.\<close>

definition py_float :: "'f world \<Rightarrow> 'f json \<Rightarrow> exn + 'f" where
  "py_float w v = (case v of JFloat x \<Rightarrow> Inr x | _ \<Rightarrow> float_conv w v)"

section \<open>The Amadeus tools\<close>

text \<open>
  Every Amadeus tool ends in the same \<^verbatim>\<open>try\<close> block: call the SDK, stamp the body with
  \<open>provider\<close> and \<open>search_timestamp\<close>, dump it; \<open>ResponseError\<close> and any other exception
  become an error dictionary. The two activity tools catch \<open>AttributeError\<close> in between
  (\<open>catch_attr\<close>) and add a \<open>note\<close>. Stamping a body that is not a dictionary raises
  \<open>TypeError\<close>, which the last clause catches. The \<open>ctx.info\<close> lines only log and are
  left out.
\<close>

definition amadeus_handler :: "bool \<Rightarrow> exn \<Rightarrow> 'f reply" where
  "amadeus_handler catch_attr e =
     (case e of Exn c msg \<Rightarrow>
        if c = ResponseError then JsonText (JObj (error_dict (''Amadeus API error: '' @ msg)))
        else if catch_attr \<and> c = AttributeError then
          JsonText (JObj [(''error'', JStr (''Tours and Activities API not available in current SDK version: '' @ msg)),
                          (''note'', JStr ''This API might require a newer SDK version or special access'')])
        else JsonText (JObj (error_dict (''Unexpected error: '' @ msg))))"

definition amadeus_stamp :: "'f world \<Rightarrow> 'f json \<Rightarrow> exn + 'f json" where
  "amadeus_stamp w body =
     (case body of
        JObj result \<Rightarrow>
          Inr (JObj (AList.update ''search_timestamp'' (JStr (now_isoformat w))
                      (AList.update ''provider'' (JStr ''Amadeus GDS'') result)))
      | _ \<Rightarrow> Inl (Exn TypeError (fault_text w (NoItemAssignment body))))"

definition amadeus_try :: "'f world \<Rightarrow> bool \<Rightarrow> 'f request \<Rightarrow> 'f outcome" where
  "amadeus_try w catch_attr req =
     \<lparr>calls = [req],
      reply = (case amadeus_get w req of
                 Inl e \<Rightarrow> amadeus_handler catch_attr e
               | Inr body \<Rightarrow>
                   (case amadeus_stamp w body of
                      Inl e \<Rightarrow> amadeus_handler catch_attr e
                    | Inr result \<Rightarrow> JsonText result))\<rparr>"

subsection \<open>search_flights_amadeus\<close>

record search_flights_amadeus_args =
  fa_originLocationCode :: string
  fa_destinationLocationCode :: string
  fa_departureDate :: string
  fa_adults :: int
  fa_returnDate :: "string option"
  fa_children :: "int option"
  fa_infants :: "int option"
  fa_travelClass :: "string option"
  fa_includedAirlineCodes :: "string option"
  fa_excludedAirlineCodes :: "string option"
  fa_nonStop :: "bool option"
  fa_currencyCode :: "string option"
  fa_maxPrice :: "int option"
  fa_max :: "int option"

definition search_flights_amadeus_params :: "search_flights_amadeus_args \<Rightarrow> 'f dict" where
  "search_flights_amadeus_params a =
     (let params = [];
          params = AList.update ''originLocationCode'' (JStr (fa_originLocationCode a)) params;
          params = AList.update ''destinationLocationCode'' (JStr (fa_destinationLocationCode a)) params;
          params = AList.update ''departureDate'' (JStr (fa_departureDate a)) params;
          params = AList.update ''adults'' (JInt (fa_adults a)) params;
          params = put_str_if_truthy ''returnDate'' (fa_returnDate a) params;
          params = put_int_if_not_none ''children'' (fa_children a) params;
          params = put_int_if_not_none ''infants'' (fa_infants a) params;
          params = put_str_if_truthy ''travelClass'' (fa_travelClass a) params;
          params = put_str_if_truthy ''includedAirlineCodes'' (fa_includedAirlineCodes a) params;
          params = put_str_if_truthy ''excludedAirlineCodes'' (fa_excludedAirlineCodes a) params;
          params = put_bool_if_not_none ''nonStop'' (fa_nonStop a) params;
          params = put_str_if_truthy ''currencyCode'' (fa_currencyCode a) params;
          params = put_int_if_not_none ''maxPrice'' (fa_maxPrice a) params;
          params = put_int_if_not_none ''max'' (fa_max a) params
      in params)"

text \<open>
  The three guards, in source order. \<open>adults and \<dots>\<close> is false for \<open>adults = 0\<close>;
  \<open>children and \<dots>\<close> is false for \<open>None\<close> and for \<open>0\<close>.
\<close>

definition adults_out_of_range :: "search_flights_amadeus_args \<Rightarrow> bool" where
  "adults_out_of_range a = (fa_adults a \<noteq> 0 \<and> \<not> (1 \<le> fa_adults a \<and> fa_adults a \<le> 9))"

definition too_many_seated :: "search_flights_amadeus_args \<Rightarrow> bool" where
  "too_many_seated a =
     (case fa_children a of None \<Rightarrow> False
      | Some c \<Rightarrow> c \<noteq> 0 \<and> truthy_int (fa_infants a) \<and> fa_adults a \<noteq> 0 \<and> fa_adults a + c > 9)"

definition too_many_infants :: "search_flights_amadeus_args \<Rightarrow> bool" where
  "too_many_infants a =
     (case fa_infants a of None \<Rightarrow> False
      | Some i \<Rightarrow> i \<noteq> 0 \<and> fa_adults a \<noteq> 0 \<and> i > fa_adults a)"

definition search_flights_amadeus :: "'f world \<Rightarrow> search_flights_amadeus_args \<Rightarrow> 'f outcome" where
  "search_flights_amadeus w a =
     (if adults_out_of_range a then
        \<lparr>calls = [], reply = JsonText (JObj (error_dict ''Adults must be between 1 and 9''))\<rparr>
      else if too_many_seated a then
        \<lparr>calls = [], reply = JsonText (JObj (error_dict
           ''Total number of seated travelers (adults + children) cannot exceed 9''))\<rparr>
      else if too_many_infants a then
        \<lparr>calls = [], reply = JsonText (JObj (error_dict
           ''Number of infants cannot exceed number of adults''))\<rparr>
      else amadeus_try w False (AmadeusGet FlightOffersSearch (search_flights_amadeus_params a)))"

subsection \<open>search_hotel_offers_amadeus\<close>

record search_hotel_offers_amadeus_args =
  ho_cityCode :: "string option"
  ho_hotelIds :: "string option"
  ho_checkInDate :: "string option"
  ho_checkOutDate :: "string option"
  ho_adults :: int
  ho_roomQuantity :: "int option"
  ho_priceRange :: "string option"
  ho_currency :: "string option"
  ho_paymentPolicy :: "string option"
  ho_boardType :: "string option"
  ho_includeClosed :: "bool option"
  ho_bestRateOnly :: "bool option"
  ho_view :: "string option"
  ho_sort :: "string option"
  ho_lang :: "string option"

definition search_hotel_offers_amadeus_params :: "search_hotel_offers_amadeus_args \<Rightarrow> 'f dict" where
  "search_hotel_offers_amadeus_params a =
     (let params = [(''adults'', JInt (ho_adults a))];
          params = put_str_if_truthy ''cityCode'' (ho_cityCode a) params;
          params = put_str_if_truthy ''hotelIds'' (ho_hotelIds a) params;
          params = put_str_if_truthy ''checkInDate'' (ho_checkInDate a) params;
          params = put_str_if_truthy ''checkOutDate'' (ho_checkOutDate a) params;
          params = put_int_if_not_none ''roomQuantity'' (ho_roomQuantity a) params;
          params = put_str_if_truthy ''priceRange'' (ho_priceRange a) params;
          params = put_str_if_truthy ''currency'' (ho_currency a) params;
          params = put_str_if_truthy ''paymentPolicy'' (ho_paymentPolicy a) params;
          params = put_str_if_truthy ''boardType'' (ho_boardType a) params;
          params = put_bool_if_not_none ''includeClosed'' (ho_includeClosed a) params;
          params = put_bool_if_not_none ''bestRateOnly'' (ho_bestRateOnly a) params;
          params = put_str_if_truthy ''view'' (ho_view a) params;
          params = put_str_if_truthy ''sort'' (ho_sort a) params;
          params = put_str_if_truthy ''lang'' (ho_lang a) params
      in params)"

definition search_hotel_offers_amadeus :: "'f world \<Rightarrow> search_hotel_offers_amadeus_args \<Rightarrow> 'f outcome" where
  "search_hotel_offers_amadeus w a =
     (if \<not> truthy_str (ho_cityCode a) \<and> \<not> truthy_str (ho_hotelIds a) then
        \<lparr>calls = [], reply = JsonText (JObj (error_dict ''Either cityCode or hotelIds must be provided''))\<rparr>
      else amadeus_try w False (AmadeusGet HotelOffers (search_hotel_offers_amadeus_params a)))"

subsection \<open>search_hotels_amadeus_by_city and search_hotels_amadeus_geocode\<close>

record search_hotels_amadeus_by_city_args =
  hc_cityCode :: string
  hc_radius :: "int option"
  hc_radiusUnit :: "string option"
  hc_chainCodes :: "string option"
  hc_amenities :: "string option"
  hc_ratings :: "string option"
  hc_hotelSource :: "string option"

definition search_hotels_amadeus_by_city_params :: "search_hotels_amadeus_by_city_args \<Rightarrow> 'f dict" where
  "search_hotels_amadeus_by_city_params a =
     (let params = [(''cityCode'', JStr (hc_cityCode a))];
          params = put_int_if_not_none ''radius'' (hc_radius a) params;
          params = put_str_if_truthy ''radiusUnit'' (hc_radiusUnit a) params;
          params = put_str_if_truthy ''chainCodes'' (hc_chainCodes a) params;
          params = put_str_if_truthy ''amenities'' (hc_amenities a) params;
          params = put_str_if_truthy ''ratings'' (hc_ratings a) params;
          params = put_str_if_truthy ''hotelSource'' (hc_hotelSource a) params
      in params)"

definition search_hotels_amadeus_by_city :: "'f world \<Rightarrow> search_hotels_amadeus_by_city_args \<Rightarrow> 'f outcome" where
  "search_hotels_amadeus_by_city w a =
     amadeus_try w False (AmadeusGet HotelsByCity (search_hotels_amadeus_by_city_params a))"

record 'f search_hotels_amadeus_geocode_args =
  hg_latitude :: 'f
  hg_longitude :: 'f
  hg_radius :: "int option"
  hg_radiusUnit :: "string option"
  hg_chainCodes :: "string option"
  hg_amenities :: "string option"
  hg_ratings :: "string option"
  hg_hotelSource :: "string option"

definition search_hotels_amadeus_geocode_params :: "'f search_hotels_amadeus_geocode_args \<Rightarrow> 'f dict" where
  "search_hotels_amadeus_geocode_params a =
     (let params = [(''latitude'', JFloat (hg_latitude a)), (''longitude'', JFloat (hg_longitude a))];
          params = put_int_if_not_none ''radius'' (hg_radius a) params;
          params = put_str_if_truthy ''radiusUnit'' (hg_radiusUnit a) params;
          params = put_str_if_truthy ''chainCodes'' (hg_chainCodes a) params;
          params = put_str_if_truthy ''amenities'' (hg_amenities a) params;
          params = put_str_if_truthy ''ratings'' (hg_ratings a) params;
          params = put_str_if_truthy ''hotelSource'' (hg_hotelSource a) params
      in params)"

definition search_hotels_amadeus_geocode :: "'f world \<Rightarrow> 'f search_hotels_amadeus_geocode_args \<Rightarrow> 'f outcome" where
  "search_hotels_amadeus_geocode w a =
     amadeus_try w False (AmadeusGet HotelsByGeocode (search_hotels_amadeus_geocode_params a))"

subsection \<open>search_activities_amadeus and get_activity_details_amadeus\<close>

record 'f search_activities_amadeus_args =
  ac_latitude :: 'f
  ac_longitude :: 'f
  ac_radius :: "int option"
  ac_radiusUnit :: string

text \<open>\<open>radius or 1\<close>: an unset radius, and a radius of 0, become 1.\<close>

definition radius_or_1 :: "int option \<Rightarrow> int" where
  "radius_or_1 r = (case r of None \<Rightarrow> 1 | Some n \<Rightarrow> if n \<noteq> 0 then n else 1)"

definition search_activities_amadeus_params :: "'f search_activities_amadeus_args \<Rightarrow> 'f dict" where
  "search_activities_amadeus_params a =
     [(''latitude'', JFloat (ac_latitude a)),
      (''longitude'', JFloat (ac_longitude a)),
      (''radius'', JInt (radius_or_1 (ac_radius a))),
      (''radiusUnit'', JStr (ac_radiusUnit a))]"

definition search_activities_amadeus :: "'f world \<Rightarrow> 'f search_activities_amadeus_args \<Rightarrow> 'f outcome" where
  "search_activities_amadeus w a =
     amadeus_try w True (AmadeusGet Activities (search_activities_amadeus_params a))"


section \<open>The SerpAPI tools\<close>

definition get_serpapi_key :: "'f world \<Rightarrow> exn + string" where
  "get_serpapi_key w =
     (case env_SERPAPI_KEY w of
        None \<Rightarrow> Inl (Exn ValueError ''SERPAPI_KEY environment variable is required'')
      | Some api_key \<Rightarrow>
          if api_key = [] then Inl (Exn ValueError ''SERPAPI_KEY environment variable is required'')
          else Inr api_key)"

text \<open>
  The three \<^verbatim>\<open>except\<close> clauses the SerpAPI tools share, in source order; \<open>what\<close> is the
  tool's own prefix of the first message.
\<close>

definition serpapi_handler :: "string \<Rightarrow> exn \<Rightarrow> 'f reply" where
  "serpapi_handler what e =
     (case e of Exn c msg \<Rightarrow>
        if c = RequestException then Mapping (error_dict (what @ msg))
        else if c = ValueError then Mapping (error_dict msg)
        else Mapping (error_dict (''Unexpected error: '' @ msg)))"

text \<open>
  The shape all four share: read the key, build the parameters, one
  \<open>requests.get("https://serpapi.com/search", params=params)\<close> (no timeout keyword),
  then \<open>process\<close> the decoded payload.
\<close>

definition serpapi_tool ::
  "'f world \<Rightarrow> string \<Rightarrow> (string \<Rightarrow> 'f dict) \<Rightarrow> ('f json \<Rightarrow> exn + 'f dict) \<Rightarrow> 'f outcome" where
  "serpapi_tool w what build process =
     (case get_serpapi_key w of
        Inl e \<Rightarrow> \<lparr>calls = [], reply = serpapi_handler what e\<rparr>
      | Inr api_key \<Rightarrow>
          (let req = HttpGet ''https://serpapi.com/search'' (build api_key) None
           in \<lparr>calls = [req],
               reply = (case try_bind (requests_get w req) process of
                          Inl e \<Rightarrow> serpapi_handler what e
                        | Inr processed_results \<Rightarrow> Mapping processed_results)\<rparr>))"

subsection \<open>search_flights_serpapi\<close>

record search_flights_serpapi_args =
  fs_departure_id :: string
  fs_arrival_id :: string
  fs_outbound_date :: string
  fs_return_date :: "string option"
  fs_trip_type :: int
  fs_adults :: int
  fs_children :: int
  fs_infants_in_seat :: int
  fs_infants_on_lap :: int
  fs_travel_class :: int
  fs_currency :: string
  fs_country :: string
  fs_language :: string
  fs_max_results :: int

definition search_flights_serpapi_params :: "search_flights_serpapi_args \<Rightarrow> string \<Rightarrow> 'f dict" where
  "search_flights_serpapi_params a api_key =
     (let params =
            [(''engine'', JStr ''google_flights''),
             (''departure_id'', JStr (fs_departure_id a)),
             (''arrival_id'', JStr (fs_arrival_id a)),
             (''outbound_date'', JStr (fs_outbound_date a)),
             (''type'', JInt (fs_trip_type a)),
             (''adults'', JInt (fs_adults a)),
             (''children'', JInt (fs_children a)),
             (''infants_in_seat'', JInt (fs_infants_in_seat a)),
             (''infants_on_lap'', JInt (fs_infants_on_lap a)),
             (''travel_class'', JInt (fs_travel_class a)),
             (''currency'', JStr (fs_currency a)),
             (''hl'', JStr (fs_language a)),
             (''gl'', JStr (fs_country a)),
             (''api_key'', JStr api_key)];
          params = (if fs_trip_type a = 1 then put_str_if_truthy ''return_date'' (fs_return_date a) params
                    else params)
      in params)"

definition trip_type_label :: "int \<Rightarrow> string" where
  "trip_type_label trip_type =
     (if trip_type = 1 then ''Round trip'' else if trip_type = 2 then ''One way'' else ''Multi-city'')"

definition travel_class_label :: "int \<Rightarrow> exn + string" where
  "travel_class_label travel_class =
     py_index [''Economy'', ''Premium economy'', ''Business'', ''First''] (travel_class - 1)"

text \<open>
  The dictionary literal is evaluated in key order: the travel-class lookup of
  \<open>search_metadata\<close> comes before the first \<open>flight_data.get\<close>.
\<close>

definition search_flights_serpapi_results ::
  "'f world \<Rightarrow> search_flights_serpapi_args \<Rightarrow> 'f json \<Rightarrow> exn + 'f dict" where
  "search_flights_serpapi_results w a flight_data =
     try_bind (travel_class_label (fs_travel_class a)) (\<lambda>travel_class_name.
     try_bind (payload_get w flight_data ''best_flights'' (JList [])) (\<lambda>best.
     try_bind (py_slice_to w best (fs_max_results a)) (\<lambda>best_flights.
     try_bind (payload_get w flight_data ''other_flights'' (JList [])) (\<lambda>other.
     try_bind (py_slice_to w other (fs_max_results a)) (\<lambda>other_flights.
     try_bind (payload_get w flight_data ''price_insights'' (JObj [])) (\<lambda>price_insights.
     try_bind (payload_get w flight_data ''airports'' (JList [])) (\<lambda>airports.
     Inr [(''provider'', JStr ''Google Flights (SerpAPI)''),
          (''search_metadata'', JObj
             [(''departure'', JStr (fs_departure_id a)),
              (''arrival'', JStr (fs_arrival_id a)),
              (''outbound_date'', JStr (fs_outbound_date a)),
              (''return_date'', opt_str (fs_return_date a)),
              (''trip_type'', JStr (trip_type_label (fs_trip_type a))),
              (''passengers'', JObj
                 [(''adults'', JInt (fs_adults a)),
                  (''children'', JInt (fs_children a)),
                  (''infants_in_seat'', JInt (fs_infants_in_seat a)),
                  (''infants_on_lap'', JInt (fs_infants_on_lap a))]),
              (''travel_class'', JStr travel_class_name),
              (''currency'', JStr (fs_currency a)),
              (''search_timestamp'', JStr (now_isoformat w))]),
          (''best_flights'', best_flights),
          (''other_flights'', other_flights),
          (''price_insights'', price_insights),
          (''airports'', airports)])))))))"

definition search_flights_serpapi :: "'f world \<Rightarrow> search_flights_serpapi_args \<Rightarrow> 'f outcome" where
  "search_flights_serpapi w a =
     serpapi_tool w ''Google Flights API request failed: ''
       (search_flights_serpapi_params a) (search_flights_serpapi_results w a)"

subsection \<open>search_hotels_serpapi\<close>

record search_hotels_serpapi_args =
  hs_location :: string
  hs_check_in_date :: string
  hs_check_out_date :: string
  hs_adults :: int
  hs_children :: int
  hs_children_ages :: "int list option"
  hs_currency :: string
  hs_country :: string
  hs_language :: string
  hs_sort_by :: "int option"
  hs_hotel_class :: "int list option"
  hs_amenities :: "int list option"
  hs_property_types :: "int list option"
  hs_brands :: "int list option"
  hs_free_cancellation :: bool
  hs_special_offers :: bool
  hs_vacation_rentals :: bool
  hs_bedrooms :: "int option"
  hs_max_results :: int

definition search_hotels_serpapi_params :: "search_hotels_serpapi_args \<Rightarrow> string \<Rightarrow> 'f dict" where
  "search_hotels_serpapi_params a api_key =
     (let params =
            [(''engine'', JStr ''google_hotels''),
             (''q'', JStr (hs_location a)),
             (''check_in_date'', JStr (hs_check_in_date a)),
             (''check_out_date'', JStr (hs_check_out_date a)),
             (''adults'', JInt (hs_adults a)),
             (''children'', JInt (hs_children a)),
             (''currency'', JStr (hs_currency a)),
             (''gl'', JStr (hs_country a)),
             (''hl'', JStr (hs_language a)),
             (''api_key'', JStr api_key)];
          params = put_csv_if_truthy ''children_ages'' (hs_children_ages a) params;
          params = put_int_if_truthy ''sort_by'' (hs_sort_by a) params;
          params = put_csv_if_truthy ''hotel_class'' (hs_hotel_class a) params;
          params = put_csv_if_truthy ''amenities'' (hs_amenities a) params;
          params = put_csv_if_truthy ''property_types'' (hs_property_types a) params;
          params = put_csv_if_truthy ''brands'' (hs_brands a) params;
          params = put_true_if ''free_cancellation'' (hs_free_cancellation a) params;
          params = put_true_if ''special_offers'' (hs_special_offers a) params;
          params = put_true_if ''vacation_rentals'' (hs_vacation_rentals a) params;
          params = put_int_if_truthy ''bedrooms'' (hs_bedrooms a) params
      in params)"

text \<open>\<open>children_ages or []\<close>.\<close>

definition children_ages_or_empty :: "int list option \<Rightarrow> 'f json" where
  "children_ages_or_empty v = (case v of None \<Rightarrow> JList [] | Some xs \<Rightarrow> JList (map JInt xs))"

definition search_hotels_serpapi_results ::
  "'f world \<Rightarrow> search_hotels_serpapi_args \<Rightarrow> 'f json \<Rightarrow> exn + 'f dict" where
  "search_hotels_serpapi_results w a hotel_data =
     try_bind (payload_get w hotel_data ''properties'' (JList [])) (\<lambda>props.
     try_bind (py_slice_to w props (hs_max_results a)) (\<lambda>properties.
     try_bind (payload_get w hotel_data ''filters'' (JObj [])) (\<lambda>filters.
     try_bind (payload_get w hotel_data ''search_parameters'' (JObj [])) (\<lambda>search_parameters.
     try_bind (payload_get w hotel_data ''place_results'' (JObj [])) (\<lambda>place_results.
     Inr [(''provider'', JStr ''Google Hotels (SerpAPI)''),
          (''search_metadata'', JObj
             [(''location'', JStr (hs_location a)),
              (''check_in_date'', JStr (hs_check_in_date a)),
              (''check_out_date'', JStr (hs_check_out_date a)),
              (''guests'', JObj
                 [(''adults'', JInt (hs_adults a)),
                  (''children'', JInt (hs_children a)),
                  (''children_ages'', children_ages_or_empty (hs_children_ages a))]),
              (''currency'', JStr (hs_currency a)),
              (''search_timestamp'', JStr (now_isoformat w))]),
          (''properties'', properties),
          (''filters'', filters),
          (''search_parameters'', search_parameters),
          (''location_info'', place_results)])))))"

definition search_hotels_serpapi :: "'f world \<Rightarrow> search_hotels_serpapi_args \<Rightarrow> 'f outcome" where
  "search_hotels_serpapi w a =
     serpapi_tool w ''Google Hotels API request failed: ''
       (search_hotels_serpapi_params a) (search_hotels_serpapi_results w a)"

subsection \<open>search_events_serpapi\<close>

record search_events_serpapi_args =
  ev_query :: string
  ev_location :: "string option"
  ev_date_filter :: "string option"
  ev_event_type :: "string option"
  ev_language :: string
  ev_country :: string
  ev_max_results :: int

definition events_search_query :: "search_events_serpapi_args \<Rightarrow> string" where
  "events_search_query a =
     (case ev_location a of
        None \<Rightarrow> ev_query a
      | Some l \<Rightarrow> if l \<noteq> [] then ev_query a @ '' in '' @ l else ev_query a)"

text \<open>
  Both filters are written to the one key \<open>htichips\<close>, the date filter first, the event
  type second.
\<close>

definition search_events_serpapi_params :: "search_events_serpapi_args \<Rightarrow> string \<Rightarrow> 'f dict" where
  "search_events_serpapi_params a api_key =
     (let params =
            [(''engine'', JStr ''google_events''),
             (''q'', JStr (events_search_query a)),
             (''hl'', JStr (ev_language a)),
             (''gl'', JStr (ev_country a)),
             (''api_key'', JStr api_key)];
          params = (case ev_date_filter a of
                      None \<Rightarrow> params
                    | Some date_filter \<Rightarrow>
                        if date_filter \<noteq> []
                        then AList.update ''htichips'' (JStr (''date:'' @ date_filter)) params
                        else params);
          params = (case ev_event_type a of
                      None \<Rightarrow> params
                    | Some event_type \<Rightarrow>
                        if event_type \<noteq> []
                        then AList.update ''htichips'' (JStr (''event_type:'' @ event_type)) params
                        else params)
      in params)"

definition search_events_serpapi_results ::
  "'f world \<Rightarrow> search_events_serpapi_args \<Rightarrow> 'f json \<Rightarrow> exn + 'f dict" where
  "search_events_serpapi_results w a event_data =
     try_bind (payload_get w event_data ''events_results'' (JList [])) (\<lambda>evs.
     try_bind (py_slice_to w evs (ev_max_results a)) (\<lambda>events.
     try_bind (payload_get w event_data ''search_parameters'' (JObj [])) (\<lambda>search_parameters.
     Inr [(''provider'', JStr ''Google Events (SerpAPI)''),
          (''search_metadata'', JObj
             [(''query'', JStr (ev_query a)),
              (''location'', opt_str (ev_location a)),
              (''date_filter'', opt_str (ev_date_filter a)),
              (''event_type'', opt_str (ev_event_type a)),
              (''language'', JStr (ev_language a)),
              (''country'', JStr (ev_country a)),
              (''search_timestamp'', JStr (now_isoformat w))]),
          (''events'', events),
          (''search_parameters'', search_parameters)])))"

definition search_events_serpapi :: "'f world \<Rightarrow> search_events_serpapi_args \<Rightarrow> 'f outcome" where
  "search_events_serpapi w a =
     serpapi_tool w ''Google Events API request failed: ''
       (search_events_serpapi_params a) (search_events_serpapi_results w a)"

subsection \<open>lookup_stock\<close>

record lookup_stock_args =
  st_symbol :: string
  st_exchange :: "string option"
  st_window :: "string option"
  st_language :: string

definition stock_query :: "'f world \<Rightarrow> lookup_stock_args \<Rightarrow> string" where
  "stock_query w a =
     (case st_exchange a of
        None \<Rightarrow> str_upper w (st_symbol a)
      | Some x \<Rightarrow> if x \<noteq> [] then str_upper w (st_symbol a) @ '':'' @ str_upper w x
                  else str_upper w (st_symbol a))"

definition lookup_stock_params :: "'f world \<Rightarrow> lookup_stock_args \<Rightarrow> string \<Rightarrow> 'f dict" where
  "lookup_stock_params w a api_key =
     (let params =
            [(''engine'', JStr ''google_finance''),
             (''q'', JStr (stock_query w a)),
             (''hl'', JStr (st_language a)),
             (''api_key'', JStr api_key)];
          params = put_str_if_truthy ''window'' (st_window a) params
      in params)"

definition lookup_stock_results :: "'f world \<Rightarrow> lookup_stock_args \<Rightarrow> 'f json \<Rightarrow> exn + 'f dict" where
  "lookup_stock_results w a finance_data =
     try_bind (payload_get w finance_data ''summary'' (JObj [])) (\<lambda>summary.
     try_bind (payload_get w finance_data ''price_movement'' (JObj [])) (\<lambda>price_movement.
     try_bind (payload_get w finance_data ''historical_data'' (JList [])) (\<lambda>historical_data.
     try_bind (payload_get w finance_data ''news'' (JList [])) (\<lambda>news.
     Inr [(''search_metadata'', JObj
             [(''symbol'', JStr (str_upper w (st_symbol a))),
              (''exchange'', opt_str (st_exchange a)),
              (''window'', opt_str (st_window a)),
              (''language'', JStr (st_language a)),
              (''search_timestamp'', JStr (now_isoformat w))]),
          (''stock_info'', summary),
          (''price_movement'', price_movement),
          (''historical_data'', historical_data),
          (''news'', news)]))))"

definition lookup_stock :: "'f world \<Rightarrow> lookup_stock_args \<Rightarrow> 'f outcome" where
  "lookup_stock w a =
     serpapi_tool w ''API request failed: '' (lookup_stock_params w a) (lookup_stock_results w a)"

section \<open>Geocoding and distance\<close>

subsection \<open>geocode_location\<close>

record geocode_location_args =
  gl_location :: string
  gl_exactly_one :: bool
  gl_timeout :: int
  gl_language :: string
  gl_addressdetails :: bool
  gl_country_codes :: "string option"

definition geocode_location_params :: "geocode_location_args \<Rightarrow> 'f dict" where
  "geocode_location_params a =
     (let geocode_params =
            [(''exactly_one'', JBool (gl_exactly_one a)),
             (''timeout'', JInt (gl_timeout a)),
             (''language'', JStr (gl_language a)),
             (''addressdetails'', JBool (gl_addressdetails a))];
          geocode_params =
            (case gl_country_codes a of
               None \<Rightarrow> geocode_params
             | Some country_codes \<Rightarrow>
                 if country_codes \<noteq> []
                 then AList.update ''country_codes''
                        (JList (map JStr (split_on CHR '','' country_codes))) geocode_params
                 else geocode_params)
      in geocode_params)"

definition geocode_handler :: "exn \<Rightarrow> 'f reply" where
  "geocode_handler e =
     (case e of Exn c msg \<Rightarrow>
        if c = GeocoderTimedOut \<or> c = GeocoderUnavailable
        then Mapping (error_dict (''Geocoding service error: '' @ msg))
        else Mapping (error_dict (''Unexpected error: '' @ msg)))"

definition location_entry :: "'f location \<Rightarrow> 'f dict" where
  "location_entry r =
     [(''coordinates'', JObj [(''latitude'', JFloat (loc_latitude r)),
                              (''longitude'', JFloat (loc_longitude r))]),
      (''address'', JStr (loc_address r)),
      (''raw_data'', loc_raw r)]"

text \<open>
  \<open>not result\<close> holds for \<open>None\<close> and for an empty list. With \<open>exactly_one\<close> the result
  must be one location, without it a list: on the other shape the attribute access
  raises \<open>AttributeError\<close>.
\<close>

definition geocode_location_results ::
  "'f world \<Rightarrow> geocode_location_args \<Rightarrow> 'f geo_result \<Rightarrow> exn + 'f dict" where
  "geocode_location_results w a result =
     (if result = GeoNone \<or> result = GeoMany [] then
        Inr [(''error'', JStr (''Location '' @ [CHR 0x27] @ gl_location a @ [CHR 0x27] @ '' not found'')),
             (''suggestions'', JStr ''Try using a more specific address or well-known landmark name'')]
      else if gl_exactly_one a then
        (case result of
           GeoOne r \<Rightarrow>
             Inr [(''location'', JStr (gl_location a)),
                  (''coordinates'', JObj [(''latitude'', JFloat (loc_latitude r)),
                                          (''longitude'', JFloat (loc_longitude r))]),
                  (''address'', JStr (loc_address r)),
                  (''raw_data'', loc_raw r),
                  (''search_timestamp'', JStr (now_isoformat w))]
         | _ \<Rightarrow> Inl (Exn AttributeError (fault_text w (WrongGeoResult result))))
      else
        (case result of
           GeoMany rs \<Rightarrow>
             Inr [(''location'', JStr (gl_location a)),
                  (''multiple_results'', JList (map (\<lambda>r. JObj (location_entry r)) rs)),
                  (''search_timestamp'', JStr (now_isoformat w))]
         | _ \<Rightarrow> Inl (Exn AttributeError (fault_text w (WrongGeoResult result)))))"

definition geocode_location :: "'f world \<Rightarrow> geocode_location_args \<Rightarrow> 'f outcome" where
  "geocode_location w a =
     (let req = GeocodeCall (gl_location a) (geocode_location_params a)
      in \<lparr>calls = [req],
          reply = (case try_bind (geocoder w req) (geocode_location_results w a) of
                     Inl e \<Rightarrow> geocode_handler e
                   | Inr processed_result \<Rightarrow> Mapping processed_result)\<rparr>)"

subsection \<open>calculate_distance\<close>

record 'f calculate_distance_args =
  cd_lat1 :: 'f
  cd_lon1 :: 'f
  cd_lat2 :: 'f
  cd_lon2 :: 'f
  cd_unit :: string

definition distance_value :: "'f world \<Rightarrow> string \<Rightarrow> 'f distance \<Rightarrow> 'f" where
  "distance_value w unit distance =
     (if str_lower w unit = ''miles'' then miles distance
      else if str_lower w unit = ''nm'' then nautical distance
      else kilometers distance)"

definition calculate_distance :: "'f world \<Rightarrow> 'f calculate_distance_args \<Rightarrow> 'f outcome" where
  "calculate_distance w a =
     \<lparr>calls = [],
      reply =
        (case geodesic w (cd_lat1 a, cd_lon1 a) (cd_lat2 a, cd_lon2 a) of
           Inl (Exn c msg) \<Rightarrow> Mapping (error_dict (''Distance calculation error: '' @ msg))
         | Inr distance \<Rightarrow>
             Mapping
               [(''point1'', JObj [(''latitude'', JFloat (cd_lat1 a)), (''longitude'', JFloat (cd_lon1 a))]),
                (''point2'', JObj [(''latitude'', JFloat (cd_lat2 a)), (''longitude'', JFloat (cd_lon2 a))]),
                (''distance'', JObj
                   [(''value'', JFloat (round2 w (distance_value w (cd_unit a) distance))),
                    (''unit'', JStr (str_lower w (cd_unit a)))]),
                (''all_units'', JObj
                   [(''kilometers'', JFloat (round2 w (kilometers distance))),
                    (''miles'', JFloat (round2 w (miles distance))),
                    (''nautical_miles'', JFloat (round2 w (nautical distance)))]),
                (''calculation_timestamp'', JStr (now_isoformat w))])\<rparr>"

section \<open>Weather\<close>

definition OPEN_METEO_BASE_URL :: string where
  "OPEN_METEO_BASE_URL = ''https://api.open-meteo.com/v1/forecast''"

definition weather_handler :: "string \<Rightarrow> exn \<Rightarrow> 'f reply" where
  "weather_handler what e =
     (case e of Exn c msg \<Rightarrow>
        if c = RequestException then Mapping (error_dict (''Weather API request failed: '' @ msg))
        else Mapping (error_dict (what @ msg)))"

subsection \<open>get_current_conditions\<close>

definition get_current_conditions_results :: "'f world \<Rightarrow> 'f \<Rightarrow> 'f \<Rightarrow> 'f json \<Rightarrow> exn + 'f dict" where
  "get_current_conditions_results w latitude longitude data =
     try_bind (payload_get w data ''current_weather'' JNull) (\<lambda>current_weather.
     try_bind (if truthy w current_weather then Inr current_weather
               else payload_get w data ''current'' JNull) (\<lambda>current.
     if \<not> truthy w current then Inr (error_dict ''Current weather not available'')
     else
     try_bind (payload_get w current ''time'' JNull) (\<lambda>time.
     try_bind (payload_get w current ''temperature'' JNull) (\<lambda>temperature.
     try_bind (payload_get w current ''windspeed'' JNull) (\<lambda>windspeed.
     try_bind (payload_get w current ''winddirection'' JNull) (\<lambda>winddirection.
     try_bind (payload_get w current ''is_day'' JNull) (\<lambda>is_day.
     try_bind (payload_get w current ''weathercode'' JNull) (\<lambda>weathercode.
     Inr [(''coordinates'', JObj [(''latitude'', JFloat latitude), (''longitude'', JFloat longitude)]),
          (''provider'', JStr ''open-meteo''),
          (''current_conditions'', JObj
             [(''timestamp'', time),
              (''temperature_c'', temperature),
              (''windspeed_kph'', windspeed),
              (''winddirection_deg'', winddirection),
              (''is_day'', is_day),
              (''weathercode'', weathercode)]),
          (''search_timestamp'', JStr (now_isoformat w))]))))))))"

definition get_current_conditions :: "'f world \<Rightarrow> 'f \<Rightarrow> 'f \<Rightarrow> 'f outcome" where
  "get_current_conditions w latitude longitude =
     (let params =
            [(''latitude'', JFloat latitude),
             (''longitude'', JFloat longitude),
             (''current_weather'', JStr ''true''),
             (''timezone'', JStr ''auto'')];
          req = HttpGet OPEN_METEO_BASE_URL params (Some 10)
      in \<lparr>calls = [req],
          reply = (case try_bind (requests_get w req) (get_current_conditions_results w latitude longitude) of
                     Inl e \<Rightarrow> weather_handler ''Error processing weather data: '' e
                   | Inr result \<Rightarrow> Mapping result)\<rparr>)"

subsection \<open>get_weather_forecast\<close>

text \<open>
  One cell of a forecast period:
  \<^verbatim>\<open>(d.get(k) or [None])[idx] if idx < len(d.get(k, [])) else None\<close>.
  The condition is evaluated first.
\<close>

definition series_at :: "'f world \<Rightarrow> 'f json \<Rightarrow> string \<Rightarrow> nat \<Rightarrow> exn + 'f json" where
  "series_at w series_data k idx =
     try_bind (payload_get w series_data k (JList [])) (\<lambda>column.
     try_bind (py_len w column) (\<lambda>n.
     if idx < n then
       try_bind (payload_get w series_data k JNull) (\<lambda>v.
       py_getitem w (if truthy w v then v else JList [JNull]) idx)
     else Inr JNull))"

definition hourly_period :: "'f world \<Rightarrow> 'f json \<Rightarrow> nat \<Rightarrow> 'f json \<Rightarrow> exn + 'f json" where
  "hourly_period w hourly_data idx t =
     try_bind (series_at w hourly_data ''temperature_2m'' idx) (\<lambda>temperature_c.
     try_bind (series_at w hourly_data ''relative_humidity_2m'' idx) (\<lambda>relative_humidity.
     try_bind (series_at w hourly_data ''apparent_temperature'' idx) (\<lambda>apparent_temperature_c.
     try_bind (series_at w hourly_data ''precipitation_probability'' idx) (\<lambda>precipitation_probability.
     try_bind (series_at w hourly_data ''windspeed_10m'' idx) (\<lambda>windspeed_10m.
     try_bind (series_at w hourly_data ''winddirection_10m'' idx) (\<lambda>winddirection_10m.
     try_bind (series_at w hourly_data ''weathercode'' idx) (\<lambda>weathercode.
     Inr (JObj
       [(''time'', t),
        (''temperature_c'', temperature_c),
        (''relative_humidity'', relative_humidity),
        (''apparent_temperature_c'', apparent_temperature_c),
        (''precipitation_probability'', precipitation_probability),
        (''windspeed_10m'', windspeed_10m),
        (''winddirection_10m'', winddirection_10m),
        (''weathercode'', weathercode)]))))))))"

definition daily_period :: "'f world \<Rightarrow> 'f json \<Rightarrow> nat \<Rightarrow> 'f json \<Rightarrow> exn + 'f json" where
  "daily_period w daily_data idx t =
     try_bind (series_at w daily_data ''temperature_2m_max'' idx) (\<lambda>temp_max_c.
     try_bind (series_at w daily_data ''temperature_2m_min'' idx) (\<lambda>temp_min_c.
     try_bind (series_at w daily_data ''precipitation_sum'' idx) (\<lambda>precipitation_sum_mm.
     try_bind (series_at w daily_data ''sunrise'' idx) (\<lambda>sunrise.
     try_bind (series_at w daily_data ''sunset'' idx) (\<lambda>sunset.
     try_bind (series_at w daily_data ''uv_index_max'' idx) (\<lambda>uv_index_max.
     Inr (JObj
       [(''date'', t),
        (''temp_max_c'', temp_max_c),
        (''temp_min_c'', temp_min_c),
        (''precipitation_sum_mm'', precipitation_sum_mm),
        (''sunrise'', sunrise),
        (''sunset'', sunset),
        (''uv_index_max'', uv_index_max)])))))))"

text \<open>\<open>for idx, t in enumerate(times): result_periods.append(\<dots>)\<close>; the first raise ends the loop.\<close>

fun forecast_periods :: "(nat \<Rightarrow> 'f json \<Rightarrow> exn + 'f json) \<Rightarrow> nat \<Rightarrow> 'f json list \<Rightarrow> exn + 'f json list" where
  "forecast_periods period idx [] = Inr []"
| "forecast_periods period idx (t # ts) =
     try_bind (period idx t) (\<lambda>p.
     try_bind (forecast_periods period (Suc idx) ts) (\<lambda>ps. Inr (p # ps)))"

definition get_weather_forecast_params :: "'f \<Rightarrow> 'f \<Rightarrow> bool \<Rightarrow> 'f dict" where
  "get_weather_forecast_params latitude longitude hourly =
     (let params =
            [(''latitude'', JFloat latitude),
             (''longitude'', JFloat longitude),
             (''timezone'', JStr ''auto'')];
          params =
            (if hourly then
               AList.update ''hourly'' (JStr (join '',''
                 [''temperature_2m'', ''relative_humidity_2m'', ''apparent_temperature'',
                  ''precipitation_probability'', ''windspeed_10m'', ''winddirection_10m'',
                  ''weathercode''])) params
             else
               AList.update ''daily'' (JStr (join '',''
                 [''temperature_2m_max'', ''temperature_2m_min'', ''precipitation_sum'',
                  ''sunrise'', ''sunset'', ''uv_index_max''])) params)
      in params)"

definition get_weather_forecast_results ::
  "'f world \<Rightarrow> 'f \<Rightarrow> 'f \<Rightarrow> bool \<Rightarrow> 'f json \<Rightarrow> exn + 'f dict" where
  "get_weather_forecast_results w latitude longitude hourly data =
     try_bind (payload_get w data (if hourly then ''hourly'' else ''daily'') (JObj [])) (\<lambda>series_data.
     try_bind (payload_get w series_data ''time'' (JList [])) (\<lambda>times.
     try_bind (py_iter w times) (\<lambda>ts.
     try_bind (forecast_periods
                 (if hourly then hourly_period w series_data else daily_period w series_data) 0 ts)
       (\<lambda>result_periods.
     try_bind (payload_get w data (if hourly then ''hourly_units'' else ''daily_units'') (JObj [])) (\<lambda>units.
     Inr [(''coordinates'', JObj [(''latitude'', JFloat latitude), (''longitude'', JFloat longitude)]),
          (''provider'', JStr ''open-meteo''),
          (''forecast_type'', JStr (if hourly then ''hourly'' else ''daily'')),
          (''forecast_periods'', JList result_periods),
          (''forecast_metadata'', JObj [(''units'', units)]),
          (''search_timestamp'', JStr (now_isoformat w))])))))"

definition get_weather_forecast :: "'f world \<Rightarrow> 'f \<Rightarrow> 'f \<Rightarrow> bool \<Rightarrow> 'f outcome" where
  "get_weather_forecast w latitude longitude hourly =
     (let req = HttpGet OPEN_METEO_BASE_URL (get_weather_forecast_params latitude longitude hourly) (Some 10)
      in \<lparr>calls = [req],
          reply = (case try_bind (requests_get w req)
                          (get_weather_forecast_results w latitude longitude hourly) of
                     Inl e \<Rightarrow> weather_handler ''Error processing forecast data: '' e
                   | Inr result \<Rightarrow> Mapping result)\<rparr>)"

section \<open>Currency conversion\<close>

definition get_exchange_rate_api_key :: "'f world \<Rightarrow> exn + string" where
  "get_exchange_rate_api_key w =
     (case env_EXCHANGE_RATE_API_KEY w of
        None \<Rightarrow> Inl (Exn ValueError ''EXCHANGE_RATE_API_KEY environment variable is required'')
      | Some api_key \<Rightarrow>
          if api_key = [] then Inl (Exn ValueError ''EXCHANGE_RATE_API_KEY environment variable is required'')
          else Inr api_key)"

record 'f convert_currency_args =
  cc_from_currency :: string
  cc_to_currency :: string
  cc_amount :: 'f
  cc_language :: string

definition currency_handler :: "exn \<Rightarrow> 'f reply" where
  "currency_handler e =
     (case e of Exn c msg \<Rightarrow>
        if c = RequestException then Mapping (error_dict (''Currency API request failed: '' @ msg))
        else Mapping (error_dict (''Unexpected error: '' @ msg)))"

definition convert_currency_url :: "'f world \<Rightarrow> 'f convert_currency_args \<Rightarrow> string \<Rightarrow> string" where
  "convert_currency_url w a api_key =
     ''https://v6.exchangerate-api.com/v6/'' @ api_key @ ''/pair/''
       @ str_upper w (cc_from_currency a) @ ''/'' @ str_upper w (cc_to_currency a)"

definition convert_currency_results :: "'f world \<Rightarrow> 'f convert_currency_args \<Rightarrow> 'f json \<Rightarrow> exn + 'f dict" where
  "convert_currency_results w a data =
     try_bind (payload_get w data ''result'' JNull) (\<lambda>result.
     if result \<noteq> JStr ''success'' then
       try_bind (payload_get w data ''error-type'' JNull) (\<lambda>error_type.
       Inr [(''error'', if truthy w error_type then error_type else JStr ''ExchangeRate-API error'')])
     else
       try_bind (payload_get w data ''conversion_rate'' JNull) (\<lambda>rate.
       if rate = JNull then Inr (error_dict ''Conversion rate not available'')
       else
         try_bind (py_float w rate) (\<lambda>r.
         (let converted_amount = round2 w (float_mul w (cc_amount a) r)
          in Inr [(''search_metadata'', JObj
                     [(''from_currency'', JStr (str_upper w (cc_from_currency a))),
                      (''to_currency'', JStr (str_upper w (cc_to_currency a))),
                      (''amount'', JFloat (cc_amount a)),
                      (''search_timestamp'', JStr (now_isoformat w)),
                      (''provider'', JStr ''exchangerate-api'')]),
                  (''exchange_rate'', rate),
                  (''conversion'', JObj
                     [(''original_amount'', JFloat (cc_amount a)),
                      (''converted_amount'', JFloat converted_amount),
                      (''rate'', rate)])]))))"

text \<open>The request passes no \<open>params\<close>, and \<open>timeout=10\<close>.\<close>

definition convert_currency :: "'f world \<Rightarrow> 'f convert_currency_args \<Rightarrow> 'f outcome" where
  "convert_currency w a =
     (case get_exchange_rate_api_key w of
        Inl e \<Rightarrow> \<lparr>calls = [], reply = currency_handler e\<rparr>
      | Inr api_key \<Rightarrow>
          (let req = HttpGet (convert_currency_url w a api_key) [] (Some 10)
           in \<lparr>calls = [req],
               reply = (case try_bind (requests_get w req) (convert_currency_results w a) of
                          Inl e \<Rightarrow> currency_handler e
                        | Inr processed_results \<Rightarrow> Mapping processed_results)\<rparr>))"

section \<open>Reading replies and requests\<close>

text \<open>
  The dictionary a reply carries (for an Amadeus tool, the dictionary that was dumped),
  its keys in order, one of its fields, and whether it has the key \<open>error\<close>.
\<close>

definition reply_dict :: "'f reply \<Rightarrow> 'f dict" where
  "reply_dict r = (case r of Mapping d \<Rightarrow> d | JsonText v \<Rightarrow> (case v of JObj d \<Rightarrow> d | _ \<Rightarrow> []))"

definition reply_keys :: "'f reply \<Rightarrow> string list" where
  "reply_keys r = keys (reply_dict r)"

definition field :: "'f reply \<Rightarrow> string \<Rightarrow> 'f json option" where
  "field r k = map_of (reply_dict r) k"

definition has_error :: "'f reply \<Rightarrow> bool" where
  "has_error r = (field r ''error'' \<noteq> None)"

text \<open>The parameters an outbound call carries, and the timeout it is made with.\<close>

definition request_params :: "'f request \<Rightarrow> 'f dict" where
  "request_params req =
     (case req of HttpGet url params timeout \<Rightarrow> params
      | AmadeusGet endpoint params \<Rightarrow> params
      | GeocodeCall location params \<Rightarrow> params)"

definition request_timeout :: "'f request \<Rightarrow> int option" where
  "request_timeout req =
     (case req of
        HttpGet url params timeout \<Rightarrow> timeout
      | AmadeusGet endpoint params \<Rightarrow> None
      | GeocodeCall location params \<Rightarrow>
          (case map_of params ''timeout'' of Some (JInt n) \<Rightarrow> Some n | _ \<Rightarrow> None))"

text \<open>A field of the \<open>search_metadata\<close> dictionary of a reply.\<close>

definition metadata_field :: "'f reply \<Rightarrow> string \<Rightarrow> 'f json option" where
  "metadata_field r k =
     (case field r ''search_metadata'' of
        None \<Rightarrow> None
      | Some v \<Rightarrow> (case v of JObj md \<Rightarrow> map_of md k | _ \<Rightarrow> None))"

text \<open>The parameter keys an invocation sent to its provider.\<close>

definition sent_keys :: "'f outcome \<Rightarrow> string set" where
  "sent_keys out = (\<Union>req \<in> set (calls out). set (keys (request_params req)))"

section \<open>Sample environment\<close>

text \<open>
  A concrete world for evaluating the tools: both API keys are set, every provider
  answers with an empty JSON object, the geocoder finds nothing.
\<close>

definition ascii_lower :: "string \<Rightarrow> string" where
  "ascii_lower s =
     map (\<lambda>c. if (65::nat) \<le> of_char c \<and> of_char c \<le> (90::nat)
              then char_of (of_char c + (32::nat)) else c) s"

definition ascii_upper :: "string \<Rightarrow> string" where
  "ascii_upper s =
     map (\<lambda>c. if (97::nat) \<le> of_char c \<and> of_char c \<le> (122::nat)
              then char_of (of_char c - (32::nat)) else c) s"

definition sample_world :: "int world" where
  "sample_world =
     \<lparr>env_SERPAPI_KEY = Some ''k'',
      env_EXCHANGE_RATE_API_KEY = Some ''x'',
      requests_get = (\<lambda>_. Inr (JObj [])),
      amadeus_get = (\<lambda>_. Inr (JObj [])),
      geocoder = (\<lambda>_. Inr GeoNone),
      geodesic = (\<lambda>_ _. Inr (Distance 100 62 54)),
      now_isoformat = ''2025-06-15T12:00:00'',
      fault_text = (\<lambda>_. ''fault''),
      float_truthy = (\<lambda>x. x \<noteq> 0),
      float_conv = (\<lambda>_. Inl (Exn TypeError ''float'')),
      float_mul = (\<lambda>x y. x * y),
      round2 = (\<lambda>x. x),
      str_lower = ascii_lower,
      str_upper = ascii_upper\<rparr>"

definition sample_flight :: search_flights_amadeus_args where
  "sample_flight =
     \<lparr>fa_originLocationCode = ''SYD'', fa_destinationLocationCode = ''BKK'',
      fa_departureDate = ''2025-06-15'', fa_adults = 1, fa_returnDate = None,
      fa_children = None, fa_infants = None, fa_travelClass = None,
      fa_includedAirlineCodes = None, fa_excludedAirlineCodes = None, fa_nonStop = None,
      fa_currencyCode = None, fa_maxPrice = None, fa_max = Some 250\<rparr>"

definition sample_offers :: search_hotel_offers_amadeus_args where
  "sample_offers =
     \<lparr>ho_cityCode = None, ho_hotelIds = None, ho_checkInDate = None, ho_checkOutDate = None,
      ho_adults = 1, ho_roomQuantity = None, ho_priceRange = None, ho_currency = None,
      ho_paymentPolicy = None, ho_boardType = None, ho_includeClosed = None,
      ho_bestRateOnly = None, ho_view = None, ho_sort = None, ho_lang = None\<rparr>"

definition sample_events :: search_events_serpapi_args where
  "sample_events =
     \<lparr>ev_query = ''concerts'', ev_location = Some ''Paris'', ev_date_filter = Some ''today'',
      ev_event_type = Some ''Virtual-Event'', ev_language = ''en'', ev_country = ''us'',
      ev_max_results = 20\<rparr>"

definition sample_distance :: "int calculate_distance_args" where
  "sample_distance = \<lparr>cd_lat1 = 48, cd_lon1 = 2, cd_lat2 = 51, cd_lon2 = 0, cd_unit = ''Yards''\<rparr>"

definition sample_search :: search_flights_serpapi_args where
  "sample_search =
     \<lparr>fs_departure_id = ''DEL'', fs_arrival_id = ''CDG'', fs_outbound_date = ''2025-06-15'',
      fs_return_date = None, fs_trip_type = 1, fs_adults = 1, fs_children = 0,
      fs_infants_in_seat = 0, fs_infants_on_lap = 0, fs_travel_class = 1, fs_currency = ''USD'',
      fs_country = ''us'', fs_language = ''en'', fs_max_results = 2\<rparr>"

text \<open>A world whose flight provider reports three best flights and one other flight.\<close>

definition flights_world :: "int world" where
  "flights_world =
     sample_world\<lparr>requests_get :=
       (\<lambda>_. Inr (JObj [(''best_flights'', JList [JInt 1, JInt 2, JInt 3]),
                        (''other_flights'', JList [JInt 4])]))\<rparr>"

definition sample_hotels :: search_hotels_serpapi_args where
  "sample_hotels =
     \<lparr>hs_location = ''Paris'', hs_check_in_date = ''2025-06-15'', hs_check_out_date = ''2025-06-20'',
      hs_adults = 2, hs_children = 0, hs_children_ages = None, hs_currency = ''USD'',
      hs_country = ''us'', hs_language = ''en'', hs_sort_by = None, hs_hotel_class = None,
      hs_amenities = None, hs_property_types = None, hs_brands = None,
      hs_free_cancellation = False, hs_special_offers = False, hs_vacation_rentals = False,
      hs_bedrooms = None, hs_max_results = 20\<rparr>"

definition sample_geocode :: geocode_location_args where
  "sample_geocode =
     \<lparr>gl_location = ''Eiffel Tower'', gl_exactly_one = True, gl_timeout = 10, gl_language = ''en'',
      gl_addressdetails = True, gl_country_codes = None\<rparr>"

definition sample_currency :: "int convert_currency_args" where
  "sample_currency =
     \<lparr>cc_from_currency = ''usd'', cc_to_currency = ''eur'', cc_amount = 100, cc_language = ''en''\<rparr>"

definition sample_city :: search_hotels_amadeus_by_city_args where
  "sample_city =
     \<lparr>hc_cityCode = ''PAR'', hc_radius = None, hc_radiusUnit = None, hc_chainCodes = None,
      hc_amenities = None, hc_ratings = None, hc_hotelSource = None\<rparr>"

definition sample_hotel_geocode :: "int search_hotels_amadeus_geocode_args" where
  "sample_hotel_geocode =
     \<lparr>hg_latitude = 48, hg_longitude = 2, hg_radius = None, hg_radiusUnit = None,
      hg_chainCodes = None, hg_amenities = None, hg_ratings = None, hg_hotelSource = None\<rparr>"

definition sample_activities :: "int search_activities_amadeus_args" where
  "sample_activities = \<lparr>ac_latitude = 48, ac_longitude = 2, ac_radius = None, ac_radiusUnit = ''KM''\<rparr>"

definition sample_stock :: lookup_stock_args where
  "sample_stock = \<lparr>st_symbol = ''dal'', st_exchange = None, st_window = None, st_language = ''en''\<rparr>"

definition sample_plain_events :: search_events_serpapi_args where
  "sample_plain_events =
     \<lparr>ev_query = ''concerts'', ev_location = None, ev_date_filter = None, ev_event_type = None,
      ev_language = ''en'', ev_country = ''us'', ev_max_results = 20\<rparr>"

section \<open>Parameter dictionaries\<close>

text \<open>Keys of a dictionary after the conditional insertions.\<close>

lemma map_of_put_str_if_truthy:
  "map_of (put_str_if_truthy k v params) k' =
     (if k' = k \<and> truthy_str v then map_option JStr v else map_of params k')"
  by (simp add: put_str_if_truthy_def truthy_str_def update_conv' split: option.splits)

lemma map_of_put_int_if_truthy:
  "map_of (put_int_if_truthy k v params) k' =
     (if k' = k \<and> truthy_int v then map_option JInt v else map_of params k')"
  by (simp add: put_int_if_truthy_def truthy_int_def update_conv' split: option.splits)

lemma map_of_put_int_if_not_none:
  "map_of (put_int_if_not_none k v params) k' =
     (if k' = k \<and> v \<noteq> None then map_option JInt v else map_of params k')"
  by (auto simp: put_int_if_not_none_def update_conv' split: option.splits)

lemma map_of_put_bool_if_not_none:
  "map_of (put_bool_if_not_none k v params) k' =
     (if k' = k \<and> v \<noteq> None then map_option JBool v else map_of params k')"
  by (auto simp: put_bool_if_not_none_def update_conv' split: option.splits)

lemma map_of_put_csv_if_truthy:
  "map_of (put_csv_if_truthy k v params) k' =
     (if k' = k \<and> v \<noteq> None \<and> v \<noteq> Some []
      then Some (JStr (join '','' (map str_int (the v)))) else map_of params k')"
  by (auto simp: put_csv_if_truthy_def update_conv' split: option.splits)

lemma map_of_put_true_if:
  "map_of (put_true_if k flag params) k' =
     (if k' = k \<and> flag then Some (JStr ''true'') else map_of params k')"
  by (simp add: put_true_if_def update_conv')

lemmas map_of_put =
  map_of_put_str_if_truthy map_of_put_int_if_truthy map_of_put_int_if_not_none
  map_of_put_bool_if_not_none update_conv'

lemma flights_amadeus_adults_sent:
  "map_of (search_flights_amadeus_params a :: 'f dict) ''adults'' = Some (JInt (fa_adults a))"
  by (simp add: search_flights_amadeus_params_def map_of_put)

section \<open>Outbound calls of the tools\<close>

lemma calls_serpapi_tool:
  "calls (serpapi_tool w what build process) =
     (case get_serpapi_key w of
        Inl e \<Rightarrow> []
      | Inr api_key \<Rightarrow> [HttpGet ''https://serpapi.com/search'' (build api_key) None])"
  by (simp add: serpapi_tool_def Let_def split: sum.splits)

lemma calls_amadeus_try: "calls (amadeus_try w catch_attr req) = [req]"
  by (simp add: amadeus_try_def)

text \<open>The four SerpAPI tools call \<open>requests.get\<close> without the \<open>timeout\<close> keyword.\<close>

lemma serpapi_tool_no_timeout:
  "map request_timeout (calls (serpapi_tool w what build process)) =
     (case get_serpapi_key w of Inl e \<Rightarrow> [] | Inr api_key \<Rightarrow> [None])"
  by (simp add: calls_serpapi_tool request_timeout_def split: sum.splits)

section \<open>Replies of the SerpAPI tools\<close>

lemma reply_serpapi_tool:
  assumes "get_serpapi_key w = Inr api_key"
      and "requests_get w (HttpGet ''https://serpapi.com/search'' (build api_key) None) = Inr data"
  shows "reply (serpapi_tool w what build process) =
           (case process data of Inl e \<Rightarrow> serpapi_handler what e | Inr r \<Rightarrow> Mapping r)"
  using assms by (simp add: serpapi_tool_def Let_def try_bind_def)

lemma slice_to_nonneg: "0 \<le> m \<Longrightarrow> slice_to xs m = take (nat m) xs"
  by (simp add: slice_to_def)

lemma slice_to_neg: "m < 0 \<Longrightarrow> slice_to xs m = take (length xs - nat (- m)) xs"
proof -
  assume "m < 0"
  then have "nat (int (length xs) + m) = length xs - nat (- m)" by linarith
  with \<open>m < 0\<close> show ?thesis by (simp add: slice_to_def)
qed

lemma flights_results_lists:
  assumes "travel_class_label (fs_travel_class a) = Inr lbl"
      and "dict_get d ''best_flights'' (JList []) = JList bs"
      and "dict_get d ''other_flights'' (JList []) = JList os"
  shows "\<exists>r. search_flights_serpapi_results w a (JObj d) = Inr r \<and>
             map_of r ''best_flights'' = Some (JList (slice_to bs (fs_max_results a))) \<and>
             map_of r ''other_flights'' = Some (JList (slice_to os (fs_max_results a)))"
  using assms
  by (simp add: search_flights_serpapi_results_def try_bind_def payload_get_def py_slice_to_def)

lemma hotels_results_lists:
  assumes "dict_get d ''properties'' (JList []) = JList ps"
  shows "\<exists>r. search_hotels_serpapi_results w a (JObj d) = Inr r \<and>
             map_of r ''properties'' = Some (JList (slice_to ps (hs_max_results a)))"
  using assms
  by (simp add: search_hotels_serpapi_results_def try_bind_def payload_get_def py_slice_to_def)

lemma events_results_lists:
  assumes "dict_get d ''events_results'' (JList []) = JList es"
  shows "\<exists>r. search_events_serpapi_results w a (JObj d) = Inr r \<and>
             map_of r ''events'' = Some (JList (slice_to es (ev_max_results a)))"
  using assms
  by (simp add: search_events_serpapi_results_def try_bind_def payload_get_def py_slice_to_def)

lemma flights_results_trip_type:
  "isl (search_flights_serpapi_results w (a\<lparr>fs_trip_type := t\<rparr>) data) =
     isl (search_flights_serpapi_results w a data)"
  by (simp add: search_flights_serpapi_results_def try_bind_def split: sum.splits)

lemma flights_results_multi_city:
  assumes "fs_trip_type a \<noteq> 1" and "fs_trip_type a \<noteq> 2"
      and "search_flights_serpapi_results w a data = Inr r"
  shows "\<exists>md. map_of r ''search_metadata'' = Some (JObj md) \<and>
              map_of md ''trip_type'' = Some (JStr ''Multi-city'')"
  using assms
  by (auto simp: search_flights_serpapi_results_def try_bind_def trip_type_label_def
        split: sum.splits)

lemma hotels_results_sort_by:
  "search_hotels_serpapi_results w (h\<lparr>hs_sort_by := s\<rparr>) data = search_hotels_serpapi_results w h data"
  by (simp add: search_hotels_serpapi_results_def)

text \<open>
  The travel-class echo is a list subscript: 1..4 name the classes, 0 down to -3 wrap
  around from the end, every other value raises \<open>IndexError\<close> (after the provider call,
  where the last \<^verbatim>\<open>except\<close> clause turns it into an \<open>Unexpected error\<close> envelope).
\<close>

lemma travel_class_label_cases:
  "travel_class_label c =
     (if c = 1 \<or> c = - 3 then Inr ''Economy''
      else if c = 2 \<or> c = - 2 then Inr ''Premium economy''
      else if c = 3 \<or> c = - 1 then Inr ''Business''
      else if c = 4 \<or> c = 0 then Inr ''First''
      else Inl (Exn IndexError ''list index out of range''))"
proof -
  consider "c = 1" | "c = 2" | "c = 3" | "c = 4" | "c = 0" | "c = - 1" | "c = - 2" | "c = - 3"
    | "c < - 3" | "4 < c" by linarith
  then show ?thesis
    by cases (simp_all add: travel_class_label_def py_index_def Let_def)
qed

section \<open>Keys sent to the providers\<close>

lemma absent_key: "map_of d k = None \<Longrightarrow> k \<notin> set (keys d)"
  by (simp add: keys_def map_of_eq_None_iff)

lemma sent_keys_amadeus_try: "sent_keys (amadeus_try w catch_attr req) = set (keys (request_params req))"
  by (simp add: sent_keys_def amadeus_try_def)

lemma sent_keys_serpapi_tool:
  "sent_keys (serpapi_tool w what build process) =
     (case get_serpapi_key w of Inl e \<Rightarrow> {} | Inr api_key \<Rightarrow> set (keys (build api_key)))"
  by (simp add: sent_keys_def calls_serpapi_tool request_params_def split: sum.splits)

lemma not_sent_flights_serpapi:
  assumes "\<And>api_key. map_of (search_flights_serpapi_params a api_key :: 'f dict) k = None"
  shows "k \<notin> sent_keys (search_flights_serpapi (w :: 'f world) a)"
  using assms
  by (auto simp: search_flights_serpapi_def sent_keys_serpapi_tool keys_def map_of_eq_None_iff
        split: sum.splits)

lemma not_sent_hotels_serpapi:
  assumes "\<And>api_key. map_of (search_hotels_serpapi_params a api_key :: 'f dict) k = None"
  shows "k \<notin> sent_keys (search_hotels_serpapi (w :: 'f world) a)"
  using assms
  by (auto simp: search_hotels_serpapi_def sent_keys_serpapi_tool keys_def map_of_eq_None_iff
        split: sum.splits)

lemma not_sent_events_serpapi:
  assumes "\<And>api_key. map_of (search_events_serpapi_params a api_key :: 'f dict) k = None"
  shows "k \<notin> sent_keys (search_events_serpapi (w :: 'f world) a)"
  using assms
  by (auto simp: search_events_serpapi_def sent_keys_serpapi_tool keys_def map_of_eq_None_iff
        split: sum.splits)

lemma not_sent_lookup_stock:
  assumes "\<And>api_key. map_of (lookup_stock_params w a api_key) k = None"
  shows "k \<notin> sent_keys (lookup_stock w a)"
  using assms
  by (auto simp: lookup_stock_def sent_keys_serpapi_tool keys_def map_of_eq_None_iff
        split: sum.splits)

lemma not_sent_flights_amadeus:
  assumes "map_of (search_flights_amadeus_params a :: 'f dict) k = None"
  shows "k \<notin> sent_keys (search_flights_amadeus (w :: 'f world) a)"
  using absent_key [OF assms]
  by (simp add: search_flights_amadeus_def sent_keys_amadeus_try request_params_def)
     (simp add: sent_keys_def)

lemma not_sent_hotel_offers:
  assumes "map_of (search_hotel_offers_amadeus_params a :: 'f dict) k = None"
  shows "k \<notin> sent_keys (search_hotel_offers_amadeus (w :: 'f world) a)"
  using absent_key [OF assms]
  by (simp add: search_hotel_offers_amadeus_def sent_keys_amadeus_try request_params_def)
     (simp add: sent_keys_def)

lemma not_sent_hotels_by_city:
  assumes "map_of (search_hotels_amadeus_by_city_params a :: 'f dict) k = None"
  shows "k \<notin> sent_keys (search_hotels_amadeus_by_city (w :: 'f world) a)"
  using absent_key [OF assms]
  by (simp add: search_hotels_amadeus_by_city_def sent_keys_amadeus_try request_params_def)

lemma not_sent_hotels_geocode:
  assumes "map_of (search_hotels_amadeus_geocode_params a) k = None"
  shows "k \<notin> sent_keys (search_hotels_amadeus_geocode w a)"
  using absent_key [OF assms]
  by (simp add: search_hotels_amadeus_geocode_def sent_keys_amadeus_try request_params_def)

lemma not_sent_geocode_location:
  assumes "map_of (geocode_location_params a :: 'f dict) k = None"
  shows "k \<notin> sent_keys (geocode_location (w :: 'f world) a)"
  using absent_key [OF assms]
  by (simp add: geocode_location_def sent_keys_def Let_def request_params_def)

lemmas not_sent =
  not_sent_flights_serpapi not_sent_hotels_serpapi not_sent_events_serpapi not_sent_lookup_stock
  not_sent_flights_amadeus not_sent_hotel_offers not_sent_hotels_by_city not_sent_hotels_geocode
  not_sent_geocode_location

lemmas params_defs =
  search_flights_serpapi_params_def search_hotels_serpapi_params_def search_events_serpapi_params_def
  lookup_stock_params_def search_flights_amadeus_params_def search_hotel_offers_amadeus_params_def
  search_hotels_amadeus_by_city_params_def search_hotels_amadeus_geocode_params_def
  geocode_location_params_def

section \<open>Shapes of the replies\<close>

lemmas shape_simps =
  reply_keys_def reply_dict_def keys_def field_def metadata_field_def error_dict_def

lemma try_bindE:
  assumes "try_bind m f = Inr r"
  obtains x where "m = Inr x" and "f x = Inr r"
  using assms by (cases m) (simp_all add: try_bind_def)

lemma try_reply_shape:
  assumes "\<And>e. reply_keys (handler e) = [''error'']"
      and "\<And>x r. process x = Inr r \<Longrightarrow> P (Mapping r)"
  shows "reply_keys (case try_bind m process of Inl e \<Rightarrow> handler e | Inr r \<Rightarrow> Mapping r) = [''error''] \<or>
         P (case try_bind m process of Inl e \<Rightarrow> handler e | Inr r \<Rightarrow> Mapping r)"
proof (cases "try_bind m process")
  case (Inl e)
  then show ?thesis by (simp add: assms(1))
next
  case (Inr r)
  then obtain x where "process x = Inr r" by (auto elim: try_bindE)
  with Inr show ?thesis by (simp add: assms(2))
qed

lemma keys_serpapi_handler: "reply_keys (serpapi_handler what e) = [''error'']"
  by (cases e) (simp add: serpapi_handler_def shape_simps)




lemma serpapi_tool_shape:
  assumes "\<And>x r. process x = Inr r \<Longrightarrow> P (Mapping r)"
  shows "reply_keys (reply (serpapi_tool w what build process)) = [''error''] \<or>
         P (reply (serpapi_tool w what build process))"
proof (cases "get_serpapi_key w")
  case (Inl e)
  then show ?thesis by (simp add: serpapi_tool_def keys_serpapi_handler)
next
  case (Inr api_key)
  then show ?thesis
    using try_reply_shape [where handler = "serpapi_handler what" and process = process and P = P,
        OF keys_serpapi_handler assms]
    by (simp add: serpapi_tool_def Let_def)
qed

















section \<open>Replies and the enumerated choices\<close>

lemma flights_results_no_error_key:
  "search_flights_serpapi_results w a data = Inr r \<Longrightarrow> map_of r ''error'' = None"
  by (auto simp: search_flights_serpapi_results_def elim!: try_bindE)

lemma has_error_serpapi_handler: "has_error (serpapi_handler what e)"
  by (cases e) (simp add: serpapi_handler_def has_error_def field_def reply_dict_def error_dict_def)

lemma flights_reply_trip_type_echo:
  "reply_keys (reply (search_flights_serpapi w a)) = [''error''] \<or>
   metadata_field (reply (search_flights_serpapi w a)) ''trip_type'' =
     Some (JStr (trip_type_label (fs_trip_type a)))"
  unfolding search_flights_serpapi_def
  by (rule serpapi_tool_shape)
     (auto simp: search_flights_serpapi_results_def shape_simps elim!: try_bindE)

lemma flights_reply_error_iff:
  assumes "get_serpapi_key w = Inr api_key"
      and "requests_get w (HttpGet ''https://serpapi.com/search'' (search_flights_serpapi_params a api_key) None)
             = Inr data"
  shows "has_error (reply (search_flights_serpapi w a)) =
           isl (search_flights_serpapi_results w (a\<lparr>fs_trip_type := t\<rparr>) data)"
proof -
  have r: "reply (search_flights_serpapi w a) =
             (case search_flights_serpapi_results w a data of
                Inl e \<Rightarrow> serpapi_handler ''Google Flights API request failed: '' e
              | Inr r \<Rightarrow> Mapping r)"
    unfolding search_flights_serpapi_def
    by (rule reply_serpapi_tool [where build = "search_flights_serpapi_params a", OF assms])
  have "has_error (reply (search_flights_serpapi w a)) = isl (search_flights_serpapi_results w a data)"
  proof (cases "search_flights_serpapi_results w a data")
    case (Inl e)
    then show ?thesis by (simp add: r has_error_serpapi_handler)
  next
    case (Inr res)
    then show ?thesis
      using flights_results_no_error_key [OF Inr]
      by (simp add: r has_error_def field_def reply_dict_def)
  qed
  then show ?thesis by (simp add: flights_results_trip_type)
qed

lemma hotels_reply_sort_by:
  assumes "get_serpapi_key w = Inr api_key"
      and "requests_get w (HttpGet ''https://serpapi.com/search'' (search_hotels_serpapi_params h api_key) None)
             = Inr data"
  shows "reply (search_hotels_serpapi w h) =
           (case search_hotels_serpapi_results w (h\<lparr>hs_sort_by := s\<rparr>) data of
              Inl e \<Rightarrow> serpapi_handler ''Google Hotels API request failed: '' e
            | Inr r \<Rightarrow> Mapping r)"
  unfolding search_hotels_serpapi_def hotels_results_sort_by
  by (rule reply_serpapi_tool [where build = "search_hotels_serpapi_params h", OF assms])

section \<open>Results\<close>

text \<open>
  C3. A hotel-offer lookup in which both \<open>cityCode\<close> and \<open>hotelIds\<close> are unset returns
  the error envelope whose message names both fields, and performs no outbound call.
\<close>

theorem hotel_offers_requires_city_or_ids:
  assumes "ho_cityCode a = None" and "ho_hotelIds a = None"
  shows "search_hotel_offers_amadeus w a =
           \<lparr>calls = [],
            reply = JsonText (JObj [(''error'', JStr ''Either cityCode or hotelIds must be provided'')])\<rparr>"
  using assms by (simp add: search_hotel_offers_amadeus_def truthy_str_def error_dict_def)

theorem hotel_offers_requires_city_or_ids_witness:
  "ho_cityCode sample_offers = None \<and> ho_hotelIds sample_offers = None \<and>
   search_hotel_offers_amadeus sample_world sample_offers =
     \<lparr>calls = [],
      reply = JsonText (JObj [(''error'', JStr ''Either cityCode or hotelIds must be provided'')])\<rparr>"
proof -
  have c: "ho_cityCode sample_offers = None" by (simp add: sample_offers_def)
  have h: "ho_hotelIds sample_offers = None" by (simp add: sample_offers_def)
  show ?thesis
    using c h hotel_offers_requires_city_or_ids [OF c h, of sample_world] by simp
qed

text \<open>
  C4. A professional flight search whose \<open>adults\<close> is outside 1..9 and is not the value
  the guard treats as unset (0) returns the JSON text of
  \<open>{"error": "Adults must be between 1 and 9"}\<close> and performs no outbound call.
  \<open>adults = 10\<close> is the instance of the witness.
\<close>

theorem adults_bound_enforced:
  assumes "fa_adults a \<noteq> 0" and "fa_adults a < 1 \<or> 9 < fa_adults a"
  shows "search_flights_amadeus w a =
           \<lparr>calls = [],
            reply = JsonText (JObj [(''error'', JStr ''Adults must be between 1 and 9'')])\<rparr>"
  using assms by (auto simp: search_flights_amadeus_def adults_out_of_range_def error_dict_def)

theorem adults_bound_enforced_witness:
  "fa_adults (sample_flight\<lparr>fa_adults := 10\<rparr>) \<noteq> 0 \<and>
   (fa_adults (sample_flight\<lparr>fa_adults := 10\<rparr>) < 1 \<or> 9 < fa_adults (sample_flight\<lparr>fa_adults := 10\<rparr>)) \<and>
   search_flights_amadeus sample_world (sample_flight\<lparr>fa_adults := 10\<rparr>) =
     \<lparr>calls = [],
      reply = JsonText (JObj [(''error'', JStr ''Adults must be between 1 and 9'')])\<rparr>"
proof -
  have n: "fa_adults (sample_flight\<lparr>fa_adults := 10\<rparr>) \<noteq> 0" by simp
  have r: "fa_adults (sample_flight\<lparr>fa_adults := 10\<rparr>) < 1 \<or> 9 < fa_adults (sample_flight\<lparr>fa_adults := 10\<rparr>)"
    by simp
  show ?thesis
    using n r adults_bound_enforced [OF n r, of sample_world] by simp
qed

text \<open>
  C8. A professional flight search with \<open>adults = 0\<close> passes all three guards, whatever
  the other arguments are: the SDK is called once, and the parameters it receives carry
  \<open>adults = 0\<close>.
\<close>

theorem adults_zero_forwarded:
  assumes "fa_adults a = 0"
  shows "calls (search_flights_amadeus w a) =
           [AmadeusGet FlightOffersSearch (search_flights_amadeus_params a)] \<and>
         map_of (search_flights_amadeus_params a :: 'f dict) ''adults'' = Some (JInt 0) \<and>
         search_flights_amadeus w a =
           amadeus_try w False (AmadeusGet FlightOffersSearch (search_flights_amadeus_params a))"
proof -
  have g: "\<not> adults_out_of_range a" "\<not> too_many_seated a" "\<not> too_many_infants a"
    using assms
    by (simp_all add: adults_out_of_range_def too_many_seated_def too_many_infants_def
          split: option.splits)
  have run: "search_flights_amadeus w a =
               amadeus_try w False (AmadeusGet FlightOffersSearch (search_flights_amadeus_params a))"
    using g by (simp add: search_flights_amadeus_def)
  have sent: "map_of (search_flights_amadeus_params a :: 'f dict) ''adults'' = Some (JInt 0)"
    using assms by (simp add: flights_amadeus_adults_sent)
  show ?thesis using run sent by (simp add: amadeus_try_def)
qed

theorem adults_zero_forwarded_witness:
  "fa_adults (sample_flight\<lparr>fa_adults := 0\<rparr>) = 0 \<and>
   calls (search_flights_amadeus sample_world (sample_flight\<lparr>fa_adults := 0\<rparr>)) =
     [AmadeusGet FlightOffersSearch
        [(''originLocationCode'', JStr ''SYD''), (''destinationLocationCode'', JStr ''BKK''),
         (''departureDate'', JStr ''2025-06-15''), (''adults'', JInt 0), (''max'', JInt 250)]] \<and>
   reply (search_flights_amadeus sample_world (sample_flight\<lparr>fa_adults := 0\<rparr>)) =
     JsonText (JObj [(''provider'', JStr ''Amadeus GDS''),
                     (''search_timestamp'', JStr ''2025-06-15T12:00:00'')])"
proof -
  have z: "fa_adults (sample_flight\<lparr>fa_adults := 0\<rparr>) = 0" by simp
  have p: "(search_flights_amadeus_params (sample_flight\<lparr>fa_adults := 0\<rparr>) :: int dict) =
             [(''originLocationCode'', JStr ''SYD''), (''destinationLocationCode'', JStr ''BKK''),
              (''departureDate'', JStr ''2025-06-15''), (''adults'', JInt 0), (''max'', JInt 250)]"
    by (simp add: search_flights_amadeus_params_def sample_flight_def put_str_if_truthy_def
          put_int_if_not_none_def put_bool_if_not_none_def)
  have run: "search_flights_amadeus sample_world (sample_flight\<lparr>fa_adults := 0\<rparr>) =
               amadeus_try sample_world False
                 (AmadeusGet FlightOffersSearch (search_flights_amadeus_params (sample_flight\<lparr>fa_adults := 0\<rparr>)))"
    using adults_zero_forwarded [OF z, of sample_world] by blast
  have t: "amadeus_try sample_world False
             (AmadeusGet FlightOffersSearch (search_flights_amadeus_params (sample_flight\<lparr>fa_adults := 0\<rparr>))) =
           \<lparr>calls = [AmadeusGet FlightOffersSearch (search_flights_amadeus_params (sample_flight\<lparr>fa_adults := 0\<rparr>))],
            reply = JsonText (JObj [(''provider'', JStr ''Amadeus GDS''),
                                    (''search_timestamp'', JStr ''2025-06-15T12:00:00'')])\<rparr>"
    by (simp add: amadeus_try_def amadeus_stamp_def sample_world_def)
  show ?thesis
    unfolding run t using z p by simp
qed

text \<open>
  C9. In the consumer event search, when \<open>date_filter\<close> and \<open>event_type\<close> are both
  supplied (non-empty), the parameters sent are the five fixed keys and one \<open>htichips\<close>
  whose value is the event-type filter: the date filter is not part of the request.
  Whatever the arguments, the request has at most one \<open>htichips\<close> entry.
\<close>

theorem event_type_overwrites_date_filter:
  assumes "ev_date_filter a = Some d" and "d \<noteq> []"
      and "ev_event_type a = Some t" and "t \<noteq> []"
  shows "calls (search_events_serpapi (w :: 'f world) a) =
           (case get_serpapi_key w of
              Inl e \<Rightarrow> []
            | Inr api_key \<Rightarrow>
                [HttpGet ''https://serpapi.com/search''
                   [(''engine'', JStr ''google_events''),
                    (''q'', JStr (events_search_query a)),
                    (''hl'', JStr (ev_language a)),
                    (''gl'', JStr (ev_country a)),
                    (''api_key'', JStr api_key),
                    (''htichips'', JStr (''event_type:'' @ t))]
                   None]) \<and>
         (\<forall>b api_key. length (filter (\<lambda>kv. fst kv = ''htichips'')
                          (search_events_serpapi_params b api_key :: 'f dict)) \<le> 1)"
proof -
  have p: "(search_events_serpapi_params a api_key :: 'f dict) =
             [(''engine'', JStr ''google_events''),
              (''q'', JStr (events_search_query a)),
              (''hl'', JStr (ev_language a)),
              (''gl'', JStr (ev_country a)),
              (''api_key'', JStr api_key),
              (''htichips'', JStr (''event_type:'' @ t))]" for api_key
    using assms by (simp add: search_events_serpapi_params_def)
  have one: "length (filter (\<lambda>kv. fst kv = ''htichips'')
               (search_events_serpapi_params b api_key :: 'f dict)) \<le> 1" for b api_key
    by (simp add: search_events_serpapi_params_def Let_def split: option.splits)
  have c: "calls (search_events_serpapi w a) =
             (case get_serpapi_key w of
                Inl e \<Rightarrow> []
              | Inr api_key \<Rightarrow>
                  [HttpGet ''https://serpapi.com/search'' (search_events_serpapi_params a api_key) None])"
    by (simp add: search_events_serpapi_def calls_serpapi_tool)
  show ?thesis
    unfolding c using one by (simp add: p split: sum.splits)
qed

theorem event_type_overwrites_date_filter_witness:
  "ev_date_filter sample_events = Some ''today'' \<and> ''today'' \<noteq> [] \<and>
   ev_event_type sample_events = Some ''Virtual-Event'' \<and> ''Virtual-Event'' \<noteq> [] \<and>
   calls (search_events_serpapi sample_world sample_events) =
     [HttpGet ''https://serpapi.com/search''
        [(''engine'', JStr ''google_events''),
         (''q'', JStr ''concerts in Paris''),
         (''hl'', JStr ''en''),
         (''gl'', JStr ''us''),
         (''api_key'', JStr ''k''),
         (''htichips'', JStr ''event_type:Virtual-Event'')]
        None]"
proof -
  have d: "ev_date_filter sample_events = Some ''today''" by (simp add: sample_events_def)
  have dn: "''today'' \<noteq> []" by simp
  have t: "ev_event_type sample_events = Some ''Virtual-Event''" by (simp add: sample_events_def)
  have tn: "''Virtual-Event'' \<noteq> []" by simp
  have k: "get_serpapi_key sample_world = Inr ''k''"
    by (simp add: get_serpapi_key_def sample_world_def)
  have q: "events_search_query sample_events = ''concerts in Paris''"
    by (simp add: events_search_query_def sample_events_def)
  have f: "ev_language sample_events = ''en''" "ev_country sample_events = ''us''"
    by (simp_all add: sample_events_def)
  from event_type_overwrites_date_filter [OF d dn t tn, of sample_world]
  have "calls (search_events_serpapi sample_world sample_events) =
          [HttpGet ''https://serpapi.com/search''
             [(''engine'', JStr ''google_events''),
              (''q'', JStr ''concerts in Paris''),
              (''hl'', JStr ''en''),
              (''gl'', JStr ''us''),
              (''api_key'', JStr ''k''),
              (''htichips'', JStr ''event_type:Virtual-Event'')]
             None]"
    by (simp add: k q f split: sum.splits)
  then show ?thesis using d t by simp
qed

text \<open>
  C10. In a distance calculation whose unit, lowercased, is neither \<open>miles\<close> nor \<open>nm\<close>,
  the reported value is the rounded distance in kilometres and the reported unit is the
  lowercased unit string as requested. The reply is an error envelope exactly when the
  geodesic primitive raises on the coordinates, which does not involve the unit.
\<close>

theorem unknown_unit_reports_kilometers:
  assumes "str_lower w (cd_unit a) \<noteq> ''miles''" and "str_lower w (cd_unit a) \<noteq> ''nm''"
  shows "calculate_distance w a =
           \<lparr>calls = [],
            reply =
              (case geodesic w (cd_lat1 a, cd_lon1 a) (cd_lat2 a, cd_lon2 a) of
                 Inl e \<Rightarrow> (case e of Exn c msg \<Rightarrow> Mapping [(''error'', JStr (''Distance calculation error: '' @ msg))])
               | Inr distance \<Rightarrow>
                   Mapping
                     [(''point1'', JObj [(''latitude'', JFloat (cd_lat1 a)), (''longitude'', JFloat (cd_lon1 a))]),
                      (''point2'', JObj [(''latitude'', JFloat (cd_lat2 a)), (''longitude'', JFloat (cd_lon2 a))]),
                      (''distance'', JObj
                         [(''value'', JFloat (round2 w (kilometers distance))),
                          (''unit'', JStr (str_lower w (cd_unit a)))]),
                      (''all_units'', JObj
                         [(''kilometers'', JFloat (round2 w (kilometers distance))),
                          (''miles'', JFloat (round2 w (miles distance))),
                          (''nautical_miles'', JFloat (round2 w (nautical distance)))]),
                      (''calculation_timestamp'', JStr (now_isoformat w))])\<rparr> \<and>
         (\<forall>b. has_error (reply (calculate_distance w b)) =
                isl (geodesic w (cd_lat1 b, cd_lon1 b) (cd_lat2 b, cd_lon2 b)))"
proof -
  have err: "has_error (reply (calculate_distance w b)) =
               isl (geodesic w (cd_lat1 b, cd_lon1 b) (cd_lat2 b, cd_lon2 b))" for b
    by (simp add: calculate_distance_def has_error_def field_def reply_dict_def error_dict_def
          split: sum.splits exn.splits)
  have run: "calculate_distance w a =
           \<lparr>calls = [],
            reply =
              (case geodesic w (cd_lat1 a, cd_lon1 a) (cd_lat2 a, cd_lon2 a) of
                 Inl e \<Rightarrow> (case e of Exn c msg \<Rightarrow> Mapping [(''error'', JStr (''Distance calculation error: '' @ msg))])
               | Inr distance \<Rightarrow>
                   Mapping
                     [(''point1'', JObj [(''latitude'', JFloat (cd_lat1 a)), (''longitude'', JFloat (cd_lon1 a))]),
                      (''point2'', JObj [(''latitude'', JFloat (cd_lat2 a)), (''longitude'', JFloat (cd_lon2 a))]),
                      (''distance'', JObj
                         [(''value'', JFloat (round2 w (kilometers distance))),
                          (''unit'', JStr (str_lower w (cd_unit a)))]),
                      (''all_units'', JObj
                         [(''kilometers'', JFloat (round2 w (kilometers distance))),
                          (''miles'', JFloat (round2 w (miles distance))),
                          (''nautical_miles'', JFloat (round2 w (nautical distance)))]),
                      (''calculation_timestamp'', JStr (now_isoformat w))])\<rparr>"
    using assms
    by (simp add: calculate_distance_def distance_value_def error_dict_def
          split: sum.splits exn.splits)
  show ?thesis using run err by blast
qed

theorem unknown_unit_reports_kilometers_witness:
  "str_lower sample_world (cd_unit sample_distance) \<noteq> ''miles'' \<and>
   str_lower sample_world (cd_unit sample_distance) \<noteq> ''nm'' \<and>
   field (reply (calculate_distance sample_world sample_distance)) ''distance'' =
     Some (JObj [(''value'', JFloat 100), (''unit'', JStr ''yards'')])"
proof -
  have l: "str_lower sample_world (cd_unit sample_distance) = ''yards''"
    by code_simp
  have m: "str_lower sample_world (cd_unit sample_distance) \<noteq> ''miles''" by (simp add: l)
  have n: "str_lower sample_world (cd_unit sample_distance) \<noteq> ''nm''" by (simp add: l)
  have g: "geodesic sample_world (cd_lat1 sample_distance, cd_lon1 sample_distance)
             (cd_lat2 sample_distance, cd_lon2 sample_distance) = Inr (Distance 100 62 54)"
    by (simp add: sample_world_def)
  have r: "round2 sample_world x = x" for x by (simp add: sample_world_def)
  from unknown_unit_reports_kilometers [OF m n]
  have "field (reply (calculate_distance sample_world sample_distance)) ''distance'' =
          Some (JObj [(''value'', JFloat 100), (''unit'', JStr ''yards'')])"
    by (simp add: g l r field_def reply_dict_def)
  then show ?thesis using m n by simp
qed

text \<open>
  C5, as amended. For a caller maximum \<open>m \<ge> 0\<close>, every truncated result collection
  (\<open>best_flights\<close> and \<open>other_flights\<close> of the flight search, \<open>properties\<close> of the
  hotel search, \<open>events\<close> of the event search) is the first \<open>m\<close> items of the list the
  provider reported (the empty list when the provider omits the key), so its length is
  the minimum of the provider's length and \<open>m\<close> and the order is the provider's; the
  two flight categories are each cut to \<open>m\<close> on their own.
\<close>

theorem truncation_to_caller_maximum:
  fixes w :: "'f world"
  assumes "0 \<le> m" and "get_serpapi_key w = Inr api_key"
  shows "(requests_get w (HttpGet ''https://serpapi.com/search'' (search_flights_serpapi_params a api_key) None)
            = Inr (JObj d) \<and>
          travel_class_label (fs_travel_class a) = Inr lbl \<and>
          dict_get d ''best_flights'' (JList []) = JList bs \<and>
          dict_get d ''other_flights'' (JList []) = JList os \<and>
          fs_max_results a = m
          \<longrightarrow> field (reply (search_flights_serpapi w a)) ''best_flights'' = Some (JList (take (nat m) bs)) \<and>
              field (reply (search_flights_serpapi w a)) ''other_flights'' = Some (JList (take (nat m) os)) \<and>
              int (length (take (nat m) bs)) = min (int (length bs)) m \<and>
              int (length (take (nat m) os)) = min (int (length os)) m) \<and>
         (requests_get w (HttpGet ''https://serpapi.com/search'' (search_hotels_serpapi_params h api_key) None)
            = Inr (JObj d) \<and>
          dict_get d ''properties'' (JList []) = JList ps \<and>
          hs_max_results h = m
          \<longrightarrow> field (reply (search_hotels_serpapi w h)) ''properties'' = Some (JList (take (nat m) ps)) \<and>
              int (length (take (nat m) ps)) = min (int (length ps)) m) \<and>
         (requests_get w (HttpGet ''https://serpapi.com/search'' (search_events_serpapi_params v api_key) None)
            = Inr (JObj d) \<and>
          dict_get d ''events_results'' (JList []) = JList es \<and>
          ev_max_results v = m
          \<longrightarrow> field (reply (search_events_serpapi w v)) ''events'' = Some (JList (take (nat m) es)) \<and>
              int (length (take (nat m) es)) = min (int (length es)) m)"
proof -
  have len: "int (length (take (nat m) xs)) = min (int (length xs)) m" for xs :: "'f json list"
    using assms(1) by simp
  have flights:
    "field (reply (search_flights_serpapi w a)) ''best_flights'' = Some (JList (take (nat m) bs)) \<and>
     field (reply (search_flights_serpapi w a)) ''other_flights'' = Some (JList (take (nat m) os))"
    if r: "requests_get w (HttpGet ''https://serpapi.com/search'' (search_flights_serpapi_params a api_key) None)
             = Inr (JObj d)"
      and l: "travel_class_label (fs_travel_class a) = Inr lbl"
      and b: "dict_get d ''best_flights'' (JList []) = JList bs"
      and ot: "dict_get d ''other_flights'' (JList []) = JList os"
      and mx: "fs_max_results a = m"
  proof -
    obtain res where res: "search_flights_serpapi_results w a (JObj d) = Inr res"
        "map_of res ''best_flights'' = Some (JList (slice_to bs m))"
        "map_of res ''other_flights'' = Some (JList (slice_to os m))"
      using flights_results_lists [OF l b ot, of w] mx by auto
    have "reply (search_flights_serpapi w a) = Mapping res"
      unfolding search_flights_serpapi_def
      by (simp add: reply_serpapi_tool [where build = "search_flights_serpapi_params a", OF assms(2) r] res(1))
    then show ?thesis
      using res(2,3) assms(1) by (simp add: field_def reply_dict_def slice_to_nonneg)
  qed
  have hotels:
    "field (reply (search_hotels_serpapi w h)) ''properties'' = Some (JList (take (nat m) ps))"
    if r: "requests_get w (HttpGet ''https://serpapi.com/search'' (search_hotels_serpapi_params h api_key) None)
             = Inr (JObj d)"
      and b: "dict_get d ''properties'' (JList []) = JList ps"
      and mx: "hs_max_results h = m"
  proof -
    obtain res where res: "search_hotels_serpapi_results w h (JObj d) = Inr res"
        "map_of res ''properties'' = Some (JList (slice_to ps m))"
      using hotels_results_lists [OF b, of w h] mx by auto
    have "reply (search_hotels_serpapi w h) = Mapping res"
      unfolding search_hotels_serpapi_def
      by (simp add: reply_serpapi_tool [where build = "search_hotels_serpapi_params h", OF assms(2) r] res(1))
    then show ?thesis
      using res(2) assms(1) by (simp add: field_def reply_dict_def slice_to_nonneg)
  qed
  have events:
    "field (reply (search_events_serpapi w v)) ''events'' = Some (JList (take (nat m) es))"
    if r: "requests_get w (HttpGet ''https://serpapi.com/search'' (search_events_serpapi_params v api_key) None)
             = Inr (JObj d)"
      and b: "dict_get d ''events_results'' (JList []) = JList es"
      and mx: "ev_max_results v = m"
  proof -
    obtain res where res: "search_events_serpapi_results w v (JObj d) = Inr res"
        "map_of res ''events'' = Some (JList (slice_to es m))"
      using events_results_lists [OF b, of w v] mx by auto
    have "reply (search_events_serpapi w v) = Mapping res"
      unfolding search_events_serpapi_def
      by (simp add: reply_serpapi_tool [where build = "search_events_serpapi_params v", OF assms(2) r] res(1))
    then show ?thesis
      using res(2) assms(1) by (simp add: field_def reply_dict_def slice_to_nonneg)
  qed
  show ?thesis
    using flights hotels events len by blast
qed

theorem truncation_to_caller_maximum_witness:
  "(0::int) \<le> 2 \<and> get_serpapi_key flights_world = Inr ''k'' \<and>
   field (reply (search_flights_serpapi flights_world sample_search)) ''best_flights'' =
     Some (JList [JInt 1, JInt 2]) \<and>
   field (reply (search_flights_serpapi flights_world sample_search)) ''other_flights'' =
     Some (JList [JInt 4])"
proof -
  have m: "(0::int) \<le> 2" by simp
  have k: "get_serpapi_key flights_world = Inr ''k''"
    by (simp add: get_serpapi_key_def flights_world_def sample_world_def)
  have r: "requests_get flights_world
             (HttpGet ''https://serpapi.com/search'' (search_flights_serpapi_params sample_search ''k'') None) =
           Inr (JObj [(''best_flights'', JList [JInt 1, JInt 2, JInt 3]), (''other_flights'', JList [JInt 4])])"
    by (simp add: flights_world_def)
  have l: "travel_class_label (fs_travel_class sample_search) = Inr ''Economy''"
    by (simp add: travel_class_label_def py_index_def sample_search_def)
  have b: "dict_get [(''best_flights'', JList [JInt 1, JInt 2, JInt 3]), (''other_flights'', JList [JInt 4])]
             ''best_flights'' (JList []) = JList [JInt 1, JInt 2, JInt (3::int)]"
    by (simp add: dict_get_def)
  have ot: "dict_get [(''best_flights'', JList [JInt 1, JInt 2, JInt 3]), (''other_flights'', JList [JInt 4])]
             ''other_flights'' (JList []) = JList [JInt (4::int)]"
    by (simp add: dict_get_def)
  have mx: "fs_max_results sample_search = 2" by (simp add: sample_search_def)
  have t: "take (nat 2) [JInt 1, JInt 2, JInt (3::int)] = [JInt 1, JInt 2]"
          "take (nat 2) [JInt (4::int)] = [JInt 4]"
    by (simp_all add: numeral_2_eq_2)
  from truncation_to_caller_maximum [OF m k, of sample_search] r l b ot mx
  have "field (reply (search_flights_serpapi flights_world sample_search)) ''best_flights'' =
          Some (JList (take (nat 2) [JInt 1, JInt 2, JInt 3])) \<and>
        field (reply (search_flights_serpapi flights_world sample_search)) ''other_flights'' =
          Some (JList (take (nat 2) [JInt 4]))"
    by blast
  then show ?thesis using m k by (simp add: t)
qed

text \<open>
  The claim as stated, for every caller maximum, fails for a negative one:
  with \<open>max_results = -1\<close> and three best flights reported, two are returned, which is
  not \<open>min(3, -1)\<close>.
\<close>

theorem truncation_negative_maximum_counterexample:
  "field (reply (search_flights_serpapi flights_world (sample_search\<lparr>fs_max_results := - 1\<rparr>)))
      ''best_flights'' = Some (JList [JInt 1, JInt 2]) \<and>
   int (length [JInt 1, JInt (2::int)]) \<noteq> min (int (length [JInt 1, JInt 2, JInt (3::int)])) (- 1)"
  by (simp add: search_flights_serpapi_def serpapi_tool_def get_serpapi_key_def flights_world_def
        sample_world_def sample_search_def Let_def try_bind_def search_flights_serpapi_results_def
        travel_class_label_def py_index_def payload_get_def dict_get_def py_slice_to_def slice_to_def
        field_def reply_dict_def)

text \<open>
  C6, as amended. The enumerated-choice arguments are not validated. With the API key
  set, the consumer flight search always issues its request, and the request carries
  \<open>trip_type\<close> (as \<open>type\<close>) and \<open>travel_class\<close> unchanged, whatever their value; the
  hotel search always issues its request and carries every non-zero \<open>sort_by\<close>
  unchanged (\<open>None\<close> and 0 are omitted). For a trip type other than 1 or 2 the reply of
  the flight search is an error envelope or echoes the trip type as \<open>Multi-city\<close>. When
  the provider answers the flight request with a payload, the reply is an error envelope
  exactly when the processing of that payload fails, and whether it fails is the same
  for every trip type. When the provider answers the hotel request with a payload, the
  reply is what the processing of that payload gives, which is the same for every
  \<open>sort_by\<close>.
\<close>

theorem enumerated_choices_not_validated:
  fixes w :: "'f world"
  assumes "get_serpapi_key w = Inr api_key"
  shows "calls (search_flights_serpapi w a) =
           [HttpGet ''https://serpapi.com/search'' (search_flights_serpapi_params a api_key) None] \<and>
         map_of (search_flights_serpapi_params a api_key :: 'f dict) ''type'' = Some (JInt (fs_trip_type a)) \<and>
         map_of (search_flights_serpapi_params a api_key :: 'f dict) ''travel_class'' =
           Some (JInt (fs_travel_class a)) \<and>
         (fs_trip_type a \<noteq> 1 \<and> fs_trip_type a \<noteq> 2
            \<longrightarrow> reply_keys (reply (search_flights_serpapi w a)) = [''error''] \<or>
                metadata_field (reply (search_flights_serpapi w a)) ''trip_type'' =
                  Some (JStr ''Multi-city'')) \<and>
         (requests_get w (HttpGet ''https://serpapi.com/search'' (search_flights_serpapi_params a api_key) None)
            = Inr data
            \<longrightarrow> (\<forall>t. has_error (reply (search_flights_serpapi w a)) =
                      isl (search_flights_serpapi_results w (a\<lparr>fs_trip_type := t\<rparr>) data))) \<and>
         calls (search_hotels_serpapi w h) =
           [HttpGet ''https://serpapi.com/search'' (search_hotels_serpapi_params h api_key) None] \<and>
         map_of (search_hotels_serpapi_params h api_key :: 'f dict) ''sort_by'' =
           (case hs_sort_by h of None \<Rightarrow> None | Some n \<Rightarrow> if n \<noteq> 0 then Some (JInt n) else None) \<and>
         (requests_get w (HttpGet ''https://serpapi.com/search'' (search_hotels_serpapi_params h api_key) None)
            = Inr hotel_data
            \<longrightarrow> (\<forall>s. reply (search_hotels_serpapi w h) =
                      (case search_hotels_serpapi_results w (h\<lparr>hs_sort_by := s\<rparr>) hotel_data of
                         Inl e \<Rightarrow> serpapi_handler ''Google Hotels API request failed: '' e
                       | Inr r \<Rightarrow> Mapping r)))"
proof -
  have c1: "calls (search_flights_serpapi w a) =
              [HttpGet ''https://serpapi.com/search'' (search_flights_serpapi_params a api_key) None]"
    using assms by (simp add: search_flights_serpapi_def calls_serpapi_tool)
  have c2: "calls (search_hotels_serpapi w h) =
              [HttpGet ''https://serpapi.com/search'' (search_hotels_serpapi_params h api_key) None]"
    using assms by (simp add: search_hotels_serpapi_def calls_serpapi_tool)
  have p1: "map_of (search_flights_serpapi_params a api_key :: 'f dict) ''type'' = Some (JInt (fs_trip_type a))"
    by (simp add: search_flights_serpapi_params_def Let_def map_of_put)
  have p2: "map_of (search_flights_serpapi_params a api_key :: 'f dict) ''travel_class'' =
              Some (JInt (fs_travel_class a))"
    by (simp add: search_flights_serpapi_params_def Let_def map_of_put)
  have p3: "map_of (search_hotels_serpapi_params h api_key :: 'f dict) ''sort_by'' =
              (case hs_sort_by h of None \<Rightarrow> None | Some n \<Rightarrow> if n \<noteq> 0 then Some (JInt n) else None)"
    by (simp add: search_hotels_serpapi_params_def Let_def map_of_put map_of_put_csv_if_truthy
          map_of_put_true_if truthy_int_def split: option.splits)
  have echo: "reply_keys (reply (search_flights_serpapi w a)) = [''error''] \<or>
              metadata_field (reply (search_flights_serpapi w a)) ''trip_type'' = Some (JStr ''Multi-city'')"
    if "fs_trip_type a \<noteq> 1" and "fs_trip_type a \<noteq> 2"
    using flights_reply_trip_type_echo [of w a] that by (simp add: trip_type_label_def)
  have err: "has_error (reply (search_flights_serpapi w a)) =
               isl (search_flights_serpapi_results w (a\<lparr>fs_trip_type := t\<rparr>) data)"
    if "requests_get w (HttpGet ''https://serpapi.com/search'' (search_flights_serpapi_params a api_key) None)
          = Inr data" for t
    by (rule flights_reply_error_iff [OF assms that])
  have srt: "reply (search_hotels_serpapi w h) =
               (case search_hotels_serpapi_results w (h\<lparr>hs_sort_by := s\<rparr>) hotel_data of
                  Inl e \<Rightarrow> serpapi_handler ''Google Hotels API request failed: '' e
                | Inr r \<Rightarrow> Mapping r)"
    if "requests_get w (HttpGet ''https://serpapi.com/search'' (search_hotels_serpapi_params h api_key) None)
          = Inr hotel_data" for s
    by (rule hotels_reply_sort_by [OF assms that])
  show ?thesis
    using c1 c2 p1 p2 p3 echo err srt by blast
qed

theorem enumerated_choices_not_validated_witness:
  "get_serpapi_key sample_world = Inr ''k'' \<and>
   fs_trip_type (sample_search\<lparr>fs_trip_type := 7\<rparr>) \<noteq> 1 \<and>
   fs_trip_type (sample_search\<lparr>fs_trip_type := 7\<rparr>) \<noteq> 2 \<and>
   requests_get sample_world
     (HttpGet ''https://serpapi.com/search''
        (search_flights_serpapi_params (sample_search\<lparr>fs_trip_type := 7\<rparr>) ''k'') None) = Inr (JObj []) \<and>
   requests_get sample_world
     (HttpGet ''https://serpapi.com/search'' (search_hotels_serpapi_params sample_hotels ''k'') None) =
     Inr (JObj []) \<and>
   map_of (request_params (hd (calls (search_flights_serpapi sample_world (sample_search\<lparr>fs_trip_type := 7\<rparr>)))))
     ''type'' = Some (JInt 7) \<and>
   \<not> has_error (reply (search_flights_serpapi sample_world (sample_search\<lparr>fs_trip_type := 7\<rparr>))) \<and>
   metadata_field (reply (search_flights_serpapi sample_world (sample_search\<lparr>fs_trip_type := 7\<rparr>)))
     ''trip_type'' = Some (JStr ''Multi-city'') \<and>
   reply (search_hotels_serpapi sample_world sample_hotels) =
     (case search_hotels_serpapi_results sample_world (sample_hotels\<lparr>hs_sort_by := Some 99\<rparr>) (JObj []) of
        Inl e \<Rightarrow> serpapi_handler ''Google Hotels API request failed: '' e
      | Inr r \<Rightarrow> Mapping r)"
proof -
  let ?a = "sample_search\<lparr>fs_trip_type := 7\<rparr>"
  have k: "get_serpapi_key sample_world = Inr ''k''"
    by (simp add: get_serpapi_key_def sample_world_def)
  have t: "fs_trip_type ?a \<noteq> 1" "fs_trip_type ?a \<noteq> 2" by simp_all
  have g: "requests_get sample_world
             (HttpGet ''https://serpapi.com/search'' (search_flights_serpapi_params ?a ''k'') None) =
           Inr (JObj [])"
    by (simp add: sample_world_def)
  have gh: "requests_get sample_world
              (HttpGet ''https://serpapi.com/search'' (search_hotels_serpapi_params sample_hotels ''k'') None) =
            Inr (JObj [])"
    by (simp add: sample_world_def)
  have ok: "\<not> isl (search_flights_serpapi_results sample_world (?a\<lparr>fs_trip_type := 1\<rparr>) (JObj []))"
    by (simp add: search_flights_serpapi_results_def try_bind_def travel_class_label_def py_index_def
          sample_search_def payload_get_def dict_get_def py_slice_to_def)
  note th = enumerated_choices_not_validated
    [OF k, where a = ?a and data = "JObj []" and h = sample_hotels and hotel_data = "JObj []"]
  have c: "calls (search_flights_serpapi sample_world ?a) =
             [HttpGet ''https://serpapi.com/search'' (search_flights_serpapi_params ?a ''k'') None]"
    using th by blast
  have p: "map_of (search_flights_serpapi_params ?a ''k'' :: int dict) ''type'' = Some (JInt 7)"
    using th by simp
  have e: "has_error (reply (search_flights_serpapi sample_world ?a)) =
             isl (search_flights_serpapi_results sample_world (?a\<lparr>fs_trip_type := 1\<rparr>) (JObj []))"
    using th g by blast
  then have ne: "\<not> has_error (reply (search_flights_serpapi sample_world ?a))"
    using ok by simp
  have "reply_keys (reply (search_flights_serpapi sample_world ?a)) = [''error''] \<or>
        metadata_field (reply (search_flights_serpapi sample_world ?a)) ''trip_type'' =
          Some (JStr ''Multi-city'')"
    using th t by blast
  moreover have "reply_keys (reply (search_flights_serpapi sample_world ?a)) \<noteq> [''error'']"
    using ne by (auto simp: has_error_def field_def reply_keys_def keys_def
                   dest!: arg_cong [where f = "\<lambda>ks. ''error'' \<in> set ks"]
                   simp: map_of_eq_None_iff)
  ultimately have md: "metadata_field (reply (search_flights_serpapi sample_world ?a)) ''trip_type'' =
                         Some (JStr ''Multi-city'')"
    by blast
  have hs: "reply (search_hotels_serpapi sample_world sample_hotels) =
              (case search_hotels_serpapi_results sample_world (sample_hotels\<lparr>hs_sort_by := Some 99\<rparr>) (JObj []) of
                 Inl e \<Rightarrow> serpapi_handler ''Google Hotels API request failed: '' e
               | Inr r \<Rightarrow> Mapping r)"
    using th gh by blast
  show ?thesis
    using k g gh ne md hs by (simp add: c p request_params_def)
qed

text \<open>
  The claim as stated fails: a flight search with \<open>trip_type = 7\<close>, outside the table,
  is sent to the provider with \<open>type = 7\<close> and answered with a result envelope that
  has no \<open>error\<close> key and echoes the trip type as \<open>Multi-city\<close>.
\<close>

theorem trip_type_outside_table_counterexample:
  "calls (search_flights_serpapi sample_world (sample_search\<lparr>fs_trip_type := 7\<rparr>)) =
     [HttpGet ''https://serpapi.com/search''
        [(''engine'', JStr ''google_flights''), (''departure_id'', JStr ''DEL''),
         (''arrival_id'', JStr ''CDG''), (''outbound_date'', JStr ''2025-06-15''),
         (''type'', JInt 7), (''adults'', JInt 1), (''children'', JInt 0),
         (''infants_in_seat'', JInt 0), (''infants_on_lap'', JInt 0), (''travel_class'', JInt 1),
         (''currency'', JStr ''USD''), (''hl'', JStr ''en''), (''gl'', JStr ''us''),
         (''api_key'', JStr ''k'')]
        None] \<and>
   \<not> has_error (reply (search_flights_serpapi sample_world (sample_search\<lparr>fs_trip_type := 7\<rparr>))) \<and>
   field (reply (search_flights_serpapi sample_world (sample_search\<lparr>fs_trip_type := 7\<rparr>))) ''search_metadata'' =
     Some (JObj
       [(''departure'', JStr ''DEL''), (''arrival'', JStr ''CDG''),
        (''outbound_date'', JStr ''2025-06-15''), (''return_date'', JNull),
        (''trip_type'', JStr ''Multi-city''),
        (''passengers'', JObj [(''adults'', JInt 1), (''children'', JInt 0),
                               (''infants_in_seat'', JInt 0), (''infants_on_lap'', JInt 0)]),
        (''travel_class'', JStr ''Economy''), (''currency'', JStr ''USD''),
        (''search_timestamp'', JStr ''2025-06-15T12:00:00'')])"
  by (simp add: search_flights_serpapi_def serpapi_tool_def get_serpapi_key_def
        sample_world_def sample_search_def Let_def try_bind_def search_flights_serpapi_results_def
        search_flights_serpapi_params_def trip_type_label_def opt_str_def
        travel_class_label_def py_index_def payload_get_def dict_get_def py_slice_to_def slice_to_def
        field_def reply_dict_def has_error_def)

text \<open>
  C7, as amended. The weather tools and the currency conversion make their HTTP request
  with the fixed timeout of 10 seconds; the geocoding lookup is made with the timeout the
  caller passes (10 by default).
\<close>

theorem request_timeouts:
  fixes w :: "'f world"
  shows "map request_timeout (calls (get_current_conditions w latitude longitude)) = [Some 10] \<and>
         map request_timeout (calls (get_weather_forecast w latitude longitude hourly)) = [Some 10] \<and>
         map request_timeout (calls (convert_currency w c)) =
           (case get_exchange_rate_api_key w of Inl e \<Rightarrow> [] | Inr api_key \<Rightarrow> [Some 10]) \<and>
         map request_timeout (calls (geocode_location w g)) = [Some (gl_timeout g)]"
proof -
  have "map_of (geocode_location_params g :: 'f dict) ''timeout'' = Some (JInt (gl_timeout g))"
    by (simp add: geocode_location_params_def Let_def update_conv' split: option.splits)
  then have geo: "map request_timeout (calls (geocode_location w g)) = [Some (gl_timeout g)]"
    by (simp add: geocode_location_def Let_def request_timeout_def)
  have cur: "map request_timeout (calls (convert_currency w c)) =
               (case get_exchange_rate_api_key w of Inl e \<Rightarrow> [] | Inr api_key \<Rightarrow> [Some 10])"
    by (simp add: convert_currency_def Let_def request_timeout_def split: sum.splits)
  have now: "map request_timeout (calls (get_current_conditions w latitude longitude)) = [Some 10]"
    by (simp add: get_current_conditions_def Let_def request_timeout_def)
  have fc: "map request_timeout (calls (get_weather_forecast w latitude longitude hourly)) = [Some 10]"
    by (simp add: get_weather_forecast_def Let_def request_timeout_def)
  show ?thesis using now fc cur geo by simp
qed

theorem request_timeouts_witness:
  "map request_timeout (calls (get_current_conditions sample_world 48 2)) = [Some 10] \<and>
   map request_timeout (calls (get_weather_forecast sample_world 48 2 True)) = [Some 10] \<and>
   map request_timeout (calls (convert_currency sample_world sample_currency)) = [Some 10] \<and>
   map request_timeout (calls (geocode_location sample_world sample_geocode)) = [Some 10]"
proof -
  have k: "get_exchange_rate_api_key sample_world = Inr ''x''"
    by (simp add: get_exchange_rate_api_key_def sample_world_def)
  have t: "gl_timeout sample_geocode = 10" by (simp add: sample_geocode_def)
  show ?thesis
    using request_timeouts [of sample_world 48 2 True sample_currency sample_geocode]
    by (simp add: k t)
qed

text \<open>
  The claim as stated fails where the timeout is the caller's: a geocoding lookup with
  \<open>timeout = 30\<close> is made with a timeout of 30 seconds.
\<close>

theorem geocode_timeout_counterexample:
  "map request_timeout (calls (geocode_location sample_world (sample_geocode\<lparr>gl_timeout := 30\<rparr>))) = [Some 30] \<and>
   Some (30::int) \<noteq> Some 10"
  by (simp add: geocode_location_def geocode_location_params_def sample_geocode_def Let_def
        request_timeout_def)

text \<open>
  C1, as amended. For every tool other than the professional activity search, an
  optional argument left unset (\<open>None\<close>) has its provider key absent from the parameters
  sent. The two event filters share the key \<open>htichips\<close>, absent when both are unset;
  the event \<open>location\<close> and the stock \<open>exchange\<close> have no key of their own and, unset,
  leave the query text as it is. The activity search sends \<open>radius = 1\<close> when the radius
  is unset.
\<close>

theorem unset_optional_arguments_omitted:
  fixes w :: "'f world"
    and hg :: "'f search_hotels_amadeus_geocode_args"
    and ac :: "'f search_activities_amadeus_args"
  shows "(fs_return_date fs = None \<longrightarrow> ''return_date'' \<notin> sent_keys (search_flights_serpapi w fs)) \<and>
         (fa_returnDate fa = None \<longrightarrow> ''returnDate'' \<notin> sent_keys (search_flights_amadeus w fa)) \<and>
         (fa_children fa = None \<longrightarrow> ''children'' \<notin> sent_keys (search_flights_amadeus w fa)) \<and>
         (fa_infants fa = None \<longrightarrow> ''infants'' \<notin> sent_keys (search_flights_amadeus w fa)) \<and>
         (fa_travelClass fa = None \<longrightarrow> ''travelClass'' \<notin> sent_keys (search_flights_amadeus w fa)) \<and>
         (fa_includedAirlineCodes fa = None \<longrightarrow> ''includedAirlineCodes'' \<notin> sent_keys (search_flights_amadeus w fa)) \<and>
         (fa_excludedAirlineCodes fa = None \<longrightarrow> ''excludedAirlineCodes'' \<notin> sent_keys (search_flights_amadeus w fa)) \<and>
         (fa_nonStop fa = None \<longrightarrow> ''nonStop'' \<notin> sent_keys (search_flights_amadeus w fa)) \<and>
         (fa_currencyCode fa = None \<longrightarrow> ''currencyCode'' \<notin> sent_keys (search_flights_amadeus w fa)) \<and>
         (fa_maxPrice fa = None \<longrightarrow> ''maxPrice'' \<notin> sent_keys (search_flights_amadeus w fa)) \<and>
         (fa_max fa = None \<longrightarrow> ''max'' \<notin> sent_keys (search_flights_amadeus w fa)) \<and>
         (hs_children_ages hs = None \<longrightarrow> ''children_ages'' \<notin> sent_keys (search_hotels_serpapi w hs)) \<and>
         (hs_sort_by hs = None \<longrightarrow> ''sort_by'' \<notin> sent_keys (search_hotels_serpapi w hs)) \<and>
         (hs_hotel_class hs = None \<longrightarrow> ''hotel_class'' \<notin> sent_keys (search_hotels_serpapi w hs)) \<and>
         (hs_amenities hs = None \<longrightarrow> ''amenities'' \<notin> sent_keys (search_hotels_serpapi w hs)) \<and>
         (hs_property_types hs = None \<longrightarrow> ''property_types'' \<notin> sent_keys (search_hotels_serpapi w hs)) \<and>
         (hs_brands hs = None \<longrightarrow> ''brands'' \<notin> sent_keys (search_hotels_serpapi w hs)) \<and>
         (hs_bedrooms hs = None \<longrightarrow> ''bedrooms'' \<notin> sent_keys (search_hotels_serpapi w hs)) \<and>
         (hc_radius hc = None \<longrightarrow> ''radius'' \<notin> sent_keys (search_hotels_amadeus_by_city w hc)) \<and>
         (hc_radiusUnit hc = None \<longrightarrow> ''radiusUnit'' \<notin> sent_keys (search_hotels_amadeus_by_city w hc)) \<and>
         (hc_chainCodes hc = None \<longrightarrow> ''chainCodes'' \<notin> sent_keys (search_hotels_amadeus_by_city w hc)) \<and>
         (hc_amenities hc = None \<longrightarrow> ''amenities'' \<notin> sent_keys (search_hotels_amadeus_by_city w hc)) \<and>
         (hc_ratings hc = None \<longrightarrow> ''ratings'' \<notin> sent_keys (search_hotels_amadeus_by_city w hc)) \<and>
         (hc_hotelSource hc = None \<longrightarrow> ''hotelSource'' \<notin> sent_keys (search_hotels_amadeus_by_city w hc)) \<and>
         (hg_radius hg = None \<longrightarrow> ''radius'' \<notin> sent_keys (search_hotels_amadeus_geocode w hg)) \<and>
         (hg_radiusUnit hg = None \<longrightarrow> ''radiusUnit'' \<notin> sent_keys (search_hotels_amadeus_geocode w hg)) \<and>
         (hg_chainCodes hg = None \<longrightarrow> ''chainCodes'' \<notin> sent_keys (search_hotels_amadeus_geocode w hg)) \<and>
         (hg_amenities hg = None \<longrightarrow> ''amenities'' \<notin> sent_keys (search_hotels_amadeus_geocode w hg)) \<and>
         (hg_ratings hg = None \<longrightarrow> ''ratings'' \<notin> sent_keys (search_hotels_amadeus_geocode w hg)) \<and>
         (hg_hotelSource hg = None \<longrightarrow> ''hotelSource'' \<notin> sent_keys (search_hotels_amadeus_geocode w hg)) \<and>
         (ho_cityCode ho = None \<longrightarrow> ''cityCode'' \<notin> sent_keys (search_hotel_offers_amadeus w ho)) \<and>
         (ho_hotelIds ho = None \<longrightarrow> ''hotelIds'' \<notin> sent_keys (search_hotel_offers_amadeus w ho)) \<and>
         (ho_checkInDate ho = None \<longrightarrow> ''checkInDate'' \<notin> sent_keys (search_hotel_offers_amadeus w ho)) \<and>
         (ho_checkOutDate ho = None \<longrightarrow> ''checkOutDate'' \<notin> sent_keys (search_hotel_offers_amadeus w ho)) \<and>
         (ho_roomQuantity ho = None \<longrightarrow> ''roomQuantity'' \<notin> sent_keys (search_hotel_offers_amadeus w ho)) \<and>
         (ho_priceRange ho = None \<longrightarrow> ''priceRange'' \<notin> sent_keys (search_hotel_offers_amadeus w ho)) \<and>
         (ho_currency ho = None \<longrightarrow> ''currency'' \<notin> sent_keys (search_hotel_offers_amadeus w ho)) \<and>
         (ho_paymentPolicy ho = None \<longrightarrow> ''paymentPolicy'' \<notin> sent_keys (search_hotel_offers_amadeus w ho)) \<and>
         (ho_boardType ho = None \<longrightarrow> ''boardType'' \<notin> sent_keys (search_hotel_offers_amadeus w ho)) \<and>
         (ho_includeClosed ho = None \<longrightarrow> ''includeClosed'' \<notin> sent_keys (search_hotel_offers_amadeus w ho)) \<and>
         (ho_bestRateOnly ho = None \<longrightarrow> ''bestRateOnly'' \<notin> sent_keys (search_hotel_offers_amadeus w ho)) \<and>
         (ho_view ho = None \<longrightarrow> ''view'' \<notin> sent_keys (search_hotel_offers_amadeus w ho)) \<and>
         (ho_sort ho = None \<longrightarrow> ''sort'' \<notin> sent_keys (search_hotel_offers_amadeus w ho)) \<and>
         (ho_lang ho = None \<longrightarrow> ''lang'' \<notin> sent_keys (search_hotel_offers_amadeus w ho)) \<and>
         (gl_country_codes gl = None \<longrightarrow> ''country_codes'' \<notin> sent_keys (geocode_location w gl)) \<and>
         (st_window st = None \<longrightarrow> ''window'' \<notin> sent_keys (lookup_stock w st)) \<and>
         (ev_date_filter ev = None \<and> ev_event_type ev = None \<longrightarrow>
            ''htichips'' \<notin> sent_keys (search_events_serpapi w ev)) \<and>
         (ev_location ev = None \<longrightarrow> events_search_query ev = ev_query ev) \<and>
         (st_exchange st = None \<longrightarrow> stock_query w st = str_upper w (st_symbol st)) \<and>
         (ac_radius ac = None \<longrightarrow>
            map (\<lambda>req. map_of (request_params req) ''radius'') (calls (search_activities_amadeus w ac)) =
              [Some (JInt 1)])"
  apply (intro conjI impI)
  apply (((rule not_sent), simp add: params_defs Let_def map_of_put map_of_put_csv_if_truthy map_of_put_true_if
            truthy_str_def truthy_int_def)
       | (simp add: events_search_query_def stock_query_def search_activities_amadeus_def
            calls_amadeus_try request_params_def search_activities_amadeus_params_def radius_or_1_def))+
  done

theorem unset_optional_arguments_omitted_witness:
  "fs_return_date sample_search = None \<and>
   fa_returnDate (sample_flight\<lparr>fa_max := None\<rparr>) = None \<and>
   fa_children (sample_flight\<lparr>fa_max := None\<rparr>) = None \<and>
   fa_infants (sample_flight\<lparr>fa_max := None\<rparr>) = None \<and>
   fa_travelClass (sample_flight\<lparr>fa_max := None\<rparr>) = None \<and>
   fa_includedAirlineCodes (sample_flight\<lparr>fa_max := None\<rparr>) = None \<and>
   fa_excludedAirlineCodes (sample_flight\<lparr>fa_max := None\<rparr>) = None \<and>
   fa_nonStop (sample_flight\<lparr>fa_max := None\<rparr>) = None \<and>
   fa_currencyCode (sample_flight\<lparr>fa_max := None\<rparr>) = None \<and>
   fa_maxPrice (sample_flight\<lparr>fa_max := None\<rparr>) = None \<and>
   fa_max (sample_flight\<lparr>fa_max := None\<rparr>) = None \<and>
   hs_children_ages sample_hotels = None \<and>
   hs_sort_by sample_hotels = None \<and>
   hs_hotel_class sample_hotels = None \<and>
   hs_amenities sample_hotels = None \<and>
   hs_property_types sample_hotels = None \<and>
   hs_brands sample_hotels = None \<and>
   hs_bedrooms sample_hotels = None \<and>
   hc_radius sample_city = None \<and>
   hc_radiusUnit sample_city = None \<and>
   hc_chainCodes sample_city = None \<and>
   hc_amenities sample_city = None \<and>
   hc_ratings sample_city = None \<and>
   hc_hotelSource sample_city = None \<and>
   hg_radius sample_hotel_geocode = None \<and>
   hg_radiusUnit sample_hotel_geocode = None \<and>
   hg_chainCodes sample_hotel_geocode = None \<and>
   hg_amenities sample_hotel_geocode = None \<and>
   hg_ratings sample_hotel_geocode = None \<and>
   hg_hotelSource sample_hotel_geocode = None \<and>
   ho_cityCode (sample_offers\<lparr>ho_hotelIds := Some ''H1''\<rparr>) = None \<and>
   ho_hotelIds (sample_offers\<lparr>ho_cityCode := Some ''PAR''\<rparr>) = None \<and>
   ho_checkInDate (sample_offers\<lparr>ho_hotelIds := Some ''H1''\<rparr>) = None \<and>
   ho_checkOutDate (sample_offers\<lparr>ho_hotelIds := Some ''H1''\<rparr>) = None \<and>
   ho_roomQuantity (sample_offers\<lparr>ho_hotelIds := Some ''H1''\<rparr>) = None \<and>
   ho_priceRange (sample_offers\<lparr>ho_hotelIds := Some ''H1''\<rparr>) = None \<and>
   ho_currency (sample_offers\<lparr>ho_hotelIds := Some ''H1''\<rparr>) = None \<and>
   ho_paymentPolicy (sample_offers\<lparr>ho_hotelIds := Some ''H1''\<rparr>) = None \<and>
   ho_boardType (sample_offers\<lparr>ho_hotelIds := Some ''H1''\<rparr>) = None \<and>
   ho_includeClosed (sample_offers\<lparr>ho_hotelIds := Some ''H1''\<rparr>) = None \<and>
   ho_bestRateOnly (sample_offers\<lparr>ho_hotelIds := Some ''H1''\<rparr>) = None \<and>
   ho_view (sample_offers\<lparr>ho_hotelIds := Some ''H1''\<rparr>) = None \<and>
   ho_sort (sample_offers\<lparr>ho_hotelIds := Some ''H1''\<rparr>) = None \<and>
   ho_lang (sample_offers\<lparr>ho_hotelIds := Some ''H1''\<rparr>) = None \<and>
   gl_country_codes sample_geocode = None \<and>
   st_window sample_stock = None \<and>
   ev_date_filter sample_plain_events = None \<and>
   ev_event_type sample_plain_events = None \<and>
   ev_location sample_plain_events = None \<and>
   st_exchange sample_stock = None \<and>
   ac_radius sample_activities = None \<and>
   ''return_date'' \<notin> sent_keys (search_flights_serpapi sample_world sample_search) \<and>
   ''returnDate'' \<notin> sent_keys (search_flights_amadeus sample_world (sample_flight\<lparr>fa_max := None\<rparr>)) \<and>
   ''children'' \<notin> sent_keys (search_flights_amadeus sample_world (sample_flight\<lparr>fa_max := None\<rparr>)) \<and>
   ''infants'' \<notin> sent_keys (search_flights_amadeus sample_world (sample_flight\<lparr>fa_max := None\<rparr>)) \<and>
   ''travelClass'' \<notin> sent_keys (search_flights_amadeus sample_world (sample_flight\<lparr>fa_max := None\<rparr>)) \<and>
   ''includedAirlineCodes'' \<notin> sent_keys (search_flights_amadeus sample_world (sample_flight\<lparr>fa_max := None\<rparr>)) \<and>
   ''excludedAirlineCodes'' \<notin> sent_keys (search_flights_amadeus sample_world (sample_flight\<lparr>fa_max := None\<rparr>)) \<and>
   ''nonStop'' \<notin> sent_keys (search_flights_amadeus sample_world (sample_flight\<lparr>fa_max := None\<rparr>)) \<and>
   ''currencyCode'' \<notin> sent_keys (search_flights_amadeus sample_world (sample_flight\<lparr>fa_max := None\<rparr>)) \<and>
   ''maxPrice'' \<notin> sent_keys (search_flights_amadeus sample_world (sample_flight\<lparr>fa_max := None\<rparr>)) \<and>
   ''max'' \<notin> sent_keys (search_flights_amadeus sample_world (sample_flight\<lparr>fa_max := None\<rparr>)) \<and>
   ''children_ages'' \<notin> sent_keys (search_hotels_serpapi sample_world sample_hotels) \<and>
   ''sort_by'' \<notin> sent_keys (search_hotels_serpapi sample_world sample_hotels) \<and>
   ''hotel_class'' \<notin> sent_keys (search_hotels_serpapi sample_world sample_hotels) \<and>
   ''amenities'' \<notin> sent_keys (search_hotels_serpapi sample_world sample_hotels) \<and>
   ''property_types'' \<notin> sent_keys (search_hotels_serpapi sample_world sample_hotels) \<and>
   ''brands'' \<notin> sent_keys (search_hotels_serpapi sample_world sample_hotels) \<and>
   ''bedrooms'' \<notin> sent_keys (search_hotels_serpapi sample_world sample_hotels) \<and>
   ''radius'' \<notin> sent_keys (search_hotels_amadeus_by_city sample_world sample_city) \<and>
   ''radiusUnit'' \<notin> sent_keys (search_hotels_amadeus_by_city sample_world sample_city) \<and>
   ''chainCodes'' \<notin> sent_keys (search_hotels_amadeus_by_city sample_world sample_city) \<and>
   ''amenities'' \<notin> sent_keys (search_hotels_amadeus_by_city sample_world sample_city) \<and>
   ''ratings'' \<notin> sent_keys (search_hotels_amadeus_by_city sample_world sample_city) \<and>
   ''hotelSource'' \<notin> sent_keys (search_hotels_amadeus_by_city sample_world sample_city) \<and>
   ''radius'' \<notin> sent_keys (search_hotels_amadeus_geocode sample_world sample_hotel_geocode) \<and>
   ''radiusUnit'' \<notin> sent_keys (search_hotels_amadeus_geocode sample_world sample_hotel_geocode) \<and>
   ''chainCodes'' \<notin> sent_keys (search_hotels_amadeus_geocode sample_world sample_hotel_geocode) \<and>
   ''amenities'' \<notin> sent_keys (search_hotels_amadeus_geocode sample_world sample_hotel_geocode) \<and>
   ''ratings'' \<notin> sent_keys (search_hotels_amadeus_geocode sample_world sample_hotel_geocode) \<and>
   ''hotelSource'' \<notin> sent_keys (search_hotels_amadeus_geocode sample_world sample_hotel_geocode) \<and>
   ''cityCode'' \<notin> sent_keys (search_hotel_offers_amadeus sample_world (sample_offers\<lparr>ho_hotelIds := Some ''H1''\<rparr>)) \<and>
   ''hotelIds'' \<notin> sent_keys (search_hotel_offers_amadeus sample_world (sample_offers\<lparr>ho_cityCode := Some ''PAR''\<rparr>)) \<and>
   ''checkInDate'' \<notin> sent_keys (search_hotel_offers_amadeus sample_world (sample_offers\<lparr>ho_hotelIds := Some ''H1''\<rparr>)) \<and>
   ''checkOutDate'' \<notin> sent_keys (search_hotel_offers_amadeus sample_world (sample_offers\<lparr>ho_hotelIds := Some ''H1''\<rparr>)) \<and>
   ''roomQuantity'' \<notin> sent_keys (search_hotel_offers_amadeus sample_world (sample_offers\<lparr>ho_hotelIds := Some ''H1''\<rparr>)) \<and>
   ''priceRange'' \<notin> sent_keys (search_hotel_offers_amadeus sample_world (sample_offers\<lparr>ho_hotelIds := Some ''H1''\<rparr>)) \<and>
   ''currency'' \<notin> sent_keys (search_hotel_offers_amadeus sample_world (sample_offers\<lparr>ho_hotelIds := Some ''H1''\<rparr>)) \<and>
   ''paymentPolicy'' \<notin> sent_keys (search_hotel_offers_amadeus sample_world (sample_offers\<lparr>ho_hotelIds := Some ''H1''\<rparr>)) \<and>
   ''boardType'' \<notin> sent_keys (search_hotel_offers_amadeus sample_world (sample_offers\<lparr>ho_hotelIds := Some ''H1''\<rparr>)) \<and>
   ''includeClosed'' \<notin> sent_keys (search_hotel_offers_amadeus sample_world (sample_offers\<lparr>ho_hotelIds := Some ''H1''\<rparr>)) \<and>
   ''bestRateOnly'' \<notin> sent_keys (search_hotel_offers_amadeus sample_world (sample_offers\<lparr>ho_hotelIds := Some ''H1''\<rparr>)) \<and>
   ''view'' \<notin> sent_keys (search_hotel_offers_amadeus sample_world (sample_offers\<lparr>ho_hotelIds := Some ''H1''\<rparr>)) \<and>
   ''sort'' \<notin> sent_keys (search_hotel_offers_amadeus sample_world (sample_offers\<lparr>ho_hotelIds := Some ''H1''\<rparr>)) \<and>
   ''lang'' \<notin> sent_keys (search_hotel_offers_amadeus sample_world (sample_offers\<lparr>ho_hotelIds := Some ''H1''\<rparr>)) \<and>
   ''country_codes'' \<notin> sent_keys (geocode_location sample_world sample_geocode) \<and>
   ''window'' \<notin> sent_keys (lookup_stock sample_world sample_stock) \<and>
   ''htichips'' \<notin> sent_keys (search_events_serpapi sample_world sample_plain_events) \<and>
   events_search_query sample_plain_events = ev_query sample_plain_events \<and>
   stock_query sample_world sample_stock = str_upper sample_world (st_symbol sample_stock) \<and>
   map (\<lambda>req. map_of (request_params req) ''radius'') (calls (search_activities_amadeus sample_world sample_activities)) =
     [Some (JInt 1)]"
proof -
  have h: "fs_return_date sample_search = None"
       "fa_returnDate (sample_flight\<lparr>fa_max := None\<rparr>) = None"
       "fa_children (sample_flight\<lparr>fa_max := None\<rparr>) = None"
       "fa_infants (sample_flight\<lparr>fa_max := None\<rparr>) = None"
       "fa_travelClass (sample_flight\<lparr>fa_max := None\<rparr>) = None"
       "fa_includedAirlineCodes (sample_flight\<lparr>fa_max := None\<rparr>) = None"
       "fa_excludedAirlineCodes (sample_flight\<lparr>fa_max := None\<rparr>) = None"
       "fa_nonStop (sample_flight\<lparr>fa_max := None\<rparr>) = None"
       "fa_currencyCode (sample_flight\<lparr>fa_max := None\<rparr>) = None"
       "fa_maxPrice (sample_flight\<lparr>fa_max := None\<rparr>) = None"
       "fa_max (sample_flight\<lparr>fa_max := None\<rparr>) = None"
       "hs_children_ages sample_hotels = None"
       "hs_sort_by sample_hotels = None"
       "hs_hotel_class sample_hotels = None"
       "hs_amenities sample_hotels = None"
       "hs_property_types sample_hotels = None"
       "hs_brands sample_hotels = None"
       "hs_bedrooms sample_hotels = None"
       "hc_radius sample_city = None"
       "hc_radiusUnit sample_city = None"
       "hc_chainCodes sample_city = None"
       "hc_amenities sample_city = None"
       "hc_ratings sample_city = None"
       "hc_hotelSource sample_city = None"
       "hg_radius sample_hotel_geocode = None"
       "hg_radiusUnit sample_hotel_geocode = None"
       "hg_chainCodes sample_hotel_geocode = None"
       "hg_amenities sample_hotel_geocode = None"
       "hg_ratings sample_hotel_geocode = None"
       "hg_hotelSource sample_hotel_geocode = None"
       "ho_cityCode (sample_offers\<lparr>ho_hotelIds := Some ''H1''\<rparr>) = None"
       "ho_hotelIds (sample_offers\<lparr>ho_cityCode := Some ''PAR''\<rparr>) = None"
       "ho_checkInDate (sample_offers\<lparr>ho_hotelIds := Some ''H1''\<rparr>) = None"
       "ho_checkOutDate (sample_offers\<lparr>ho_hotelIds := Some ''H1''\<rparr>) = None"
       "ho_roomQuantity (sample_offers\<lparr>ho_hotelIds := Some ''H1''\<rparr>) = None"
       "ho_priceRange (sample_offers\<lparr>ho_hotelIds := Some ''H1''\<rparr>) = None"
       "ho_currency (sample_offers\<lparr>ho_hotelIds := Some ''H1''\<rparr>) = None"
       "ho_paymentPolicy (sample_offers\<lparr>ho_hotelIds := Some ''H1''\<rparr>) = None"
       "ho_boardType (sample_offers\<lparr>ho_hotelIds := Some ''H1''\<rparr>) = None"
       "ho_includeClosed (sample_offers\<lparr>ho_hotelIds := Some ''H1''\<rparr>) = None"
       "ho_bestRateOnly (sample_offers\<lparr>ho_hotelIds := Some ''H1''\<rparr>) = None"
       "ho_view (sample_offers\<lparr>ho_hotelIds := Some ''H1''\<rparr>) = None"
       "ho_sort (sample_offers\<lparr>ho_hotelIds := Some ''H1''\<rparr>) = None"
       "ho_lang (sample_offers\<lparr>ho_hotelIds := Some ''H1''\<rparr>) = None"
       "gl_country_codes sample_geocode = None"
       "st_window sample_stock = None"
       "ev_date_filter sample_plain_events = None"
       "ev_event_type sample_plain_events = None"
       "ev_location sample_plain_events = None"
       "st_exchange sample_stock = None"
       "ac_radius sample_activities = None"
    by (simp_all add: sample_search_def sample_flight_def sample_hotels_def sample_city_def
          sample_hotel_geocode_def sample_offers_def sample_geocode_def sample_stock_def
          sample_plain_events_def sample_activities_def)
  note t1 = unset_optional_arguments_omitted
    [where w = sample_world and fs = sample_search and fa = "sample_flight\<lparr>fa_max := None\<rparr>"
       and hs = sample_hotels and hc = sample_city and hg = sample_hotel_geocode
       and ho = "sample_offers\<lparr>ho_hotelIds := Some ''H1''\<rparr>" and gl = sample_geocode
       and st = sample_stock and ev = sample_plain_events and ac = sample_activities]
  note t2 = unset_optional_arguments_omitted
    [where w = sample_world and fs = sample_search and fa = "sample_flight\<lparr>fa_max := None\<rparr>"
       and hs = sample_hotels and hc = sample_city and hg = sample_hotel_geocode
       and ho = "sample_offers\<lparr>ho_cityCode := Some ''PAR''\<rparr>" and gl = sample_geocode
       and st = sample_stock and ev = sample_plain_events and ac = sample_activities]
  show ?thesis
    using h t1 t2 by (simp only: simp_thms)
qed

text \<open>
  The claim as stated fails for the activity search: with \<open>radius\<close> unset the parameters
  sent contain \<open>radius\<close>, with the default value 1.
\<close>

theorem activities_radius_default_counterexample:
  "ac_radius sample_activities = None \<and>
   calls (search_activities_amadeus sample_world sample_activities) =
     [AmadeusGet Activities
        [(''latitude'', JFloat 48), (''longitude'', JFloat 2), (''radius'', JInt 1),
         (''radiusUnit'', JStr ''KM'')]] \<and>
   ''radius'' \<in> sent_keys (search_activities_amadeus sample_world sample_activities)"
  by (simp add: search_activities_amadeus_def amadeus_try_def search_activities_amadeus_params_def
        sample_activities_def radius_or_1_def sent_keys_def request_params_def keys_def)




end
